theory Spec2Isabelle
  imports Main "HOL-Library.AList"
begin

section \<open>Values, events and callbacks\<close>

text \<open>
  The values that travel through event payloads and callback arguments: integers, strings,
  tuples and \<^verbatim>\<open>None\<close>.
\<close>

datatype pyval = VInt int | VStr string | VTuple "pyval list" | VNone

text \<open>
  The exceptions the package raises or lets through. \<^verbatim>\<open>sys.exit()\<close> raises
  \<^verbatim>\<open>SystemExit\<close>; both error conditions of the package are \<^verbatim>\<open>RuntimeError\<close>s
  told apart by their message; \<open>OverflowError\<close> is what pygame raises for an integer
  that does not fit a C \<^verbatim>\<open>int\<close>; \<open>Raised\<close> stands for any exception of user code.
\<close>

datatype exn =
    RuntimeError string
  | SystemExit
  | TypeError
  | AttributeError string
  | OverflowError
  | Raised string

definition NotActive :: exn where
  "NotActive = RuntimeError ''No window is active.''"

definition InvalidArgument :: exn where
  "InvalidArgument = RuntimeError ''`ms` should be a non-zero integer''"

text \<open>
  A pygame event: its integer type and its attribute dictionary
  (\<^verbatim>\<open>pygame.event.Event(type, **dict)\<close>).
\<close>

record event =
  etype :: int
  attrs :: "(string \<times> pyval) list"

text \<open>
  The event type constants of pygame that the package names, with their values in
  pygame 2.1. Nothing below depends on the values beyond their being pairwise different.
\<close>

definition QUIT :: int where "QUIT = 256"
definition KEYDOWN :: int where "KEYDOWN = 768"
definition KEYUP :: int where "KEYUP = 769"
definition MOUSEMOTION :: int where "MOUSEMOTION = 1024"
definition MOUSEBUTTONDOWN :: int where "MOUSEBUTTONDOWN = 1025"
definition MOUSEBUTTONUP :: int where "MOUSEBUTTONUP = 1026"
definition MOUSEWHEEL :: int where "MOUSEWHEEL = 1027"
definition WINDOWRESIZED :: int where "WINDOWRESIZED = 32778"
definition WINDOWENTER :: int where "WINDOWENTER = 32783"
definition WINDOWLEAVE :: int where "WINDOWLEAVE = 32784"
definition WINDOWFOCUSGAINED :: int where "WINDOWFOCUSGAINED = 32785"
definition WINDOWFOCUSLOST :: int where "WINDOWFOCUSLOST = 32786"
definition USEREVENT :: int where "USEREVENT = 32866"

text \<open>
  Objects are named by their address. A callback is a bound method or a plain function:
  \<open>Hook n obj\<close> is the overridable method (or user function) whose \<^verbatim>\<open>__name__\<close> is
  \<open>n\<close>, bound to \<open>obj\<close>; \<open>WindowClose w\<close> is \<^verbatim>\<open>w.close\<close> and \<open>WindowDemux w\<close> is the
  private \<^verbatim>\<open>w.__on_mouse_motion\<close>, the two methods of \<^verbatim>\<open>Window\<close> that carry code of
  their own. A bound method's \<^verbatim>\<open>__name__\<close> is the name of its \<^verbatim>\<open>def\<close>.
\<close>

datatype obj = WindowObj nat | ViewObj nat | FunctionObj nat

datatype callback =
    Hook string obj
  | WindowClose nat
  | WindowDemux nat

fun cb_name :: "callback \<Rightarrow> string" where
  "cb_name (Hook n _) = n"
| "cb_name (WindowClose _) = ''close''"
| "cb_name (WindowDemux _) = ''__on_mouse_motion''"

section \<open>EventManager: the handler registry\<close>

text \<open>
  \<^verbatim>\<open>event_handlers\<close> is a dictionary from event type to a dictionary from callback
  name to callback. Python dictionaries keep insertion order, so both levels are
  association lists: \<open>AList.update\<close> overwrites a key in place or appends a new one,
  \<open>AList.delete\<close> is \<^verbatim>\<open>pop(key, None)\<close>.
\<close>

type_synonym handlers = "(string \<times> callback) list"

record EventManager =
  event_handlers :: "(int \<times> handlers) list"

definition EventManager_init :: EventManager where
  "EventManager_init = \<lparr>event_handlers = []\<rparr>"

text \<open>
  \<^verbatim>\<open>handlers = self.event_handlers.setdefault(event_type, {})\<close> then
  \<^verbatim>\<open>handlers[callback.__name__] = callback\<close>.
\<close>

definition add_event_handler :: "int \<Rightarrow> callback \<Rightarrow> EventManager \<Rightarrow> EventManager" where
  "add_event_handler event_type callback em =
     (let hs = (case map_of (event_handlers em) event_type of
                  None \<Rightarrow> [] | Some h \<Rightarrow> h)
      in em\<lparr>event_handlers :=
               AList.update event_type (AList.update (cb_name callback) callback hs)
                 (event_handlers em)\<rparr>)"

text \<open>
  \<^verbatim>\<open>if handlers := self.event_handlers.get(event_type): handlers.pop(callback.__name__, None)\<close>:
  a missing event type and an empty dictionary are both falsy.
\<close>

definition remove_event_handler :: "int \<Rightarrow> callback \<Rightarrow> EventManager \<Rightarrow> EventManager" where
  "remove_event_handler event_type callback em =
     (case map_of (event_handlers em) event_type of
        None \<Rightarrow> em
      | Some hs \<Rightarrow>
          if hs = [] then em
          else em\<lparr>event_handlers :=
                    AList.update event_type (AList.delete (cb_name callback) hs)
                      (event_handlers em)\<rparr>)"

text \<open>The handler table of one event type, as a lookup by name; empty for an absent type.\<close>

definition handler_table :: "EventManager \<Rightarrow> int \<Rightarrow> (string \<rightharpoonup> callback)" where
  "handler_table em t =
     (case map_of (event_handlers em) t of None \<Rightarrow> Map.empty | Some hs \<Rightarrow> map_of hs)"

text \<open>The slots of one event type in dictionary order.\<close>

definition slots :: "EventManager \<Rightarrow> int \<Rightarrow> handlers" where
  "slots em t = (case map_of (event_handlers em) t of None \<Rightarrow> [] | Some hs \<Rightarrow> hs)"

text \<open>A sequence of registry calls, run on the code.\<close>

datatype registry_call = Add int callback | Remove int callback

fun apply_call :: "registry_call \<Rightarrow> EventManager \<Rightarrow> EventManager" where
  "apply_call (Add t cb) em = add_event_handler t cb em"
| "apply_call (Remove t cb) em = remove_event_handler t cb em"

fun run_calls :: "registry_call list \<Rightarrow> EventManager \<Rightarrow> EventManager" where
  "run_calls [] em = em"
| "run_calls (c # cs) em = run_calls cs (apply_call c em)"

text \<open>
  The replay semantics of the specification, written from its words: a table per event
  type keyed by the callback's declared name; adding overwrites the slot of that name,
  removing deletes the slot of that name when it is there and does nothing otherwise.
\<close>

type_synonym spec_registry = "int \<Rightarrow> (string \<rightharpoonup> callback)"

fun spec_replay_call :: "registry_call \<Rightarrow> spec_registry \<Rightarrow> spec_registry" where
  "spec_replay_call (Add t cb) tbl = tbl(t := (tbl t)(cb_name cb \<mapsto> cb))"
| "spec_replay_call (Remove t cb) tbl =
     (if cb_name cb \<in> dom (tbl t) then tbl(t := (tbl t)(cb_name cb := None)) else tbl)"

fun spec_replay :: "registry_call list \<Rightarrow> spec_registry \<Rightarrow> spec_registry" where
  "spec_replay [] tbl = tbl"
| "spec_replay (c # cs) tbl = spec_replay cs (spec_replay_call c tbl)"

definition spec_empty :: spec_registry where
  "spec_empty = (\<lambda>_. Map.empty)"

text \<open>Every slot list of the registry has pairwise different names.\<close>

definition one_per_name :: "EventManager \<Rightarrow> bool" where
  "one_per_name em \<longleftrightarrow> list_all (\<lambda>(t, hs). distinct (map fst hs)) (event_handlers em)"

section \<open>Program state\<close>

text \<open>
  A \<^verbatim>\<open>Window\<close> object. The rendering configuration that only feeds pygame's display
  calls (flags, clock, update rate) is left out. \<open>screen\<close> is \<^verbatim>\<open>_screen\<close>: \<open>None\<close>
  until \<^verbatim>\<open>run()\<close> acquires a surface, then the colour the surface was last filled with.
  \<open>ctx_active\<close> is \<^verbatim>\<open>self._ctx.active\<close>, the flag of the window's own
  \<^verbatim>\<open>_WindowContext\<close>. The handler surface is a set of attributes, each holding the
  callable currently bound to it.
\<close>

record Window =
  width :: int
  height :: int
  background_color :: pyval
  screen :: "pyval option"
  event_manager :: EventManager
  active :: bool
  ctx_active :: bool
  on_draw :: callback
  on_update :: callback
  on_key_press :: callback
  on_key_release :: callback
  on_mouse_enter :: callback
  on_mouse_leave :: callback
  on_mouse_motion :: callback
  on_mouse_drag :: callback
  on_mouse_press :: callback
  on_mouse_release :: callback
  on_mouse_scroll :: callback
  on_resize :: callback
  on_focus :: callback
  on_blur :: callback

text \<open>
  The process: the module global \<^verbatim>\<open>_window\<close> of \<^verbatim>\<open>window_commands\<close>, the heap of
  window objects with its allocation pointer, the class counter of \<^verbatim>\<open>UserEvent\<close>, and
  what the package touches of pygame: whether the runtime is up, the caption, the event
  queue, the clock in milliseconds, the timer table and the live mouse position and key
  modifiers. A timer is kept per event type: the attribute dictionary of its event, its
  interval and the clock value at which it was set.
\<close>

record pstate =
  window_global :: "nat option"
  windows :: "nat \<Rightarrow> Window"
  next_obj :: nat
  userevent_counter :: int
  pygame_running :: bool
  caption :: pyval
  queue :: "event list"
  clock :: int
  timers :: "(int \<times> (string \<times> pyval) list \<times> int \<times> int) list"
  mouse_pos :: "int \<times> int"
  key_mods :: int

text \<open>
  A statement sequence that may raise: the result is the exception or the value, with the
  state as it is at that point.
\<close>

type_synonym 'a action = "pstate \<Rightarrow> (exn + 'a) \<times> pstate"

definition then_do :: "'a action \<Rightarrow> ('a \<Rightarrow> 'b action) \<Rightarrow> 'b action" where
  "then_do m f s = (case m s of (Inl e, s') \<Rightarrow> (Inl e, s') | (Inr a, s') \<Rightarrow> f a s')"

definition returns :: "'a \<Rightarrow> 'a action" where
  "returns a s = (Inr a, s)"

definition raise :: "exn \<Rightarrow> 'a action" where
  "raise e s = (Inl e, s)"

definition modify :: "(pstate \<Rightarrow> pstate) \<Rightarrow> unit action" where
  "modify f s = (Inr (), f s)"

definition update_window :: "nat \<Rightarrow> (Window \<Rightarrow> Window) \<Rightarrow> pstate \<Rightarrow> pstate" where
  "update_window w f s = s\<lparr>windows := (windows s)(w := f (windows s w))\<rparr>"

text \<open>
  The code of every overridable method and user function: what calling it with these
  arguments does to the process. The package's own bodies are empty; a subclass of
  \<^verbatim>\<open>Window\<close> or \<^verbatim>\<open>View\<close> supplies others. \<open>default_hooks\<close> are hooks that all
  return without doing anything.
\<close>

type_synonym hooks = "callback \<Rightarrow> pyval list \<Rightarrow> unit action"

definition default_hooks :: hooks where
  "default_hooks cb args = returns ()"

section \<open>window\_commands\<close>

definition set_window :: "nat \<Rightarrow> pstate \<Rightarrow> pstate" where
  "set_window window s = s\<lparr>window_global := Some window\<rparr>"

text \<open>\<^verbatim>\<open>if not _window: raise RuntimeError("No window is active.")\<close>; a window object is truthy.\<close>

definition get_window :: "nat action" where
  "get_window s =
     (case window_global s of None \<Rightarrow> raise NotActive s | Some w \<Rightarrow> returns w s)"

definition set_title :: "pyval \<Rightarrow> pstate \<Rightarrow> pstate" where
  "set_title title s = s\<lparr>caption := title\<rparr>"

text \<open>\<^verbatim>\<open>pygame.quit()\<close> then \<^verbatim>\<open>sys.exit()\<close>.\<close>

definition exit :: "unit action" where
  "exit s = raise SystemExit (s\<lparr>pygame_running := False\<rparr>)"

section \<open>Window\<close>

definition Window_close :: "nat \<Rightarrow> unit action" where
  "Window_close w s = exit (update_window w (\<lambda>win. win\<lparr>ctx_active := False\<rparr>) s)"

text \<open>
  \<^verbatim>\<open>close_window\<close>: \<^verbatim>\<open>get_window().close()\<close>, then \<^verbatim>\<open>_window = None\<close>.
\<close>

definition close_window :: "unit action" where
  "close_window =
     then_do get_window (\<lambda>w.
     then_do (Window_close w) (\<lambda>_.
     modify (\<lambda>s. s\<lparr>window_global := None\<rparr>)))"

definition set_background_color :: "pyval \<Rightarrow> unit action" where
  "set_background_color color =
     then_do get_window (\<lambda>w.
     modify (update_window w (\<lambda>win. win\<lparr>background_color := color\<rparr>)))"

text \<open>
  \<^verbatim>\<open>__register_events\<close>: twelve \<^verbatim>\<open>add_event_handler\<close> calls in this order, each
  reading the attribute as it is bound now; \<^verbatim>\<open>self.close\<close> and
  \<^verbatim>\<open>self.__on_mouse_motion\<close> are the window's own two methods.
\<close>

definition registrations :: "nat \<Rightarrow> Window \<Rightarrow> (int \<times> callback) list" where
  "registrations w win =
     [(QUIT, WindowClose w),
      (WINDOWFOCUSGAINED, on_focus win),
      (WINDOWFOCUSLOST, on_blur win),
      (KEYDOWN, on_key_press win),
      (KEYUP, on_key_release win),
      (WINDOWLEAVE, on_mouse_leave win),
      (WINDOWENTER, on_mouse_enter win),
      (MOUSEMOTION, WindowDemux w),
      (MOUSEBUTTONDOWN, on_mouse_press win),
      (MOUSEBUTTONUP, on_mouse_release win),
      (MOUSEWHEEL, on_mouse_scroll win),
      (WINDOWRESIZED, on_resize win)]"

definition adds :: "(int \<times> callback) list \<Rightarrow> registry_call list" where
  "adds rs = map (\<lambda>(t, cb). Add t cb) rs"

definition register_events_em :: "nat \<Rightarrow> Window \<Rightarrow> EventManager" where
  "register_events_em w win = run_calls (adds (registrations w win)) (event_manager win)"

definition Window_register_events :: "nat \<Rightarrow> pstate \<Rightarrow> pstate" where
  "Window_register_events w s =
     update_window w (\<lambda>win. win\<lparr>event_manager := register_events_em w win\<rparr>) s"

text \<open>
  \<^verbatim>\<open>Window.__init__\<close>: a new object whose handler attributes are the class's own
  methods; it becomes the active window, sets the caption and registers its events.
\<close>

definition new_window :: "nat \<Rightarrow> int \<Rightarrow> int \<Rightarrow> Window" where
  "new_window w wd ht =
     \<lparr>width = wd, height = ht,
      background_color = VTuple [VInt 255, VInt 255, VInt 255],
      screen = None,
      event_manager = EventManager_init,
      active = False,
      ctx_active = False,
      on_draw = Hook ''on_draw'' (WindowObj w),
      on_update = Hook ''on_update'' (WindowObj w),
      on_key_press = Hook ''on_key_press'' (WindowObj w),
      on_key_release = Hook ''on_key_release'' (WindowObj w),
      on_mouse_enter = Hook ''on_mouse_enter'' (WindowObj w),
      on_mouse_leave = Hook ''on_mouse_leave'' (WindowObj w),
      on_mouse_motion = Hook ''on_mouse_motion'' (WindowObj w),
      on_mouse_drag = Hook ''on_mouse_drag'' (WindowObj w),
      on_mouse_press = Hook ''on_mouse_press'' (WindowObj w),
      on_mouse_release = Hook ''on_mouse_release'' (WindowObj w),
      on_mouse_scroll = Hook ''on_mouse_scroll'' (WindowObj w),
      on_resize = Hook ''on_resize'' (WindowObj w),
      on_focus = Hook ''on_focus'' (WindowObj w),
      on_blur = Hook ''on_blur'' (WindowObj w)\<rparr>"

definition Window_init :: "int \<Rightarrow> int \<Rightarrow> pyval \<Rightarrow> pstate \<Rightarrow> nat \<times> pstate" where
  "Window_init wd ht title s =
     (let w = next_obj s;
          s1 = s\<lparr>next_obj := Suc w, windows := (windows s)(w := new_window w wd ht)\<rparr>;
          s2 = set_window w s1;
          s3 = set_title title s2
      in (w, Window_register_events w s3))"

text \<open>
  \<^verbatim>\<open>__on_mouse_motion(x, y, dx, dy, buttons, modifiers)\<close>: the call goes to whatever
  \<^verbatim>\<open>self.on_mouse_motion\<close> or \<^verbatim>\<open>self.on_mouse_drag\<close> is bound to. A call with another
  number of arguments is a \<^verbatim>\<open>TypeError\<close>.
\<close>

definition no_buttons :: pyval where
  "no_buttons = VTuple [VInt 0, VInt 0, VInt 0]"

fun Window_private_on_mouse_motion :: "hooks \<Rightarrow> nat \<Rightarrow> pyval list \<Rightarrow> unit action" where
  "Window_private_on_mouse_motion user w [x, y, dx, dy, buttons, modifiers] s =
     (if buttons = no_buttons
      then user (on_mouse_motion (windows s w)) [x, y, dx, dy, modifiers] s
      else user (on_mouse_drag (windows s w)) [x, y, dx, dy, buttons, modifiers] s)"
| "Window_private_on_mouse_motion user w args s = raise TypeError s"

text \<open>Calling a registered callback: \<^verbatim>\<open>close(_event=None)\<close> takes at most one argument.\<close>

fun invoke :: "hooks \<Rightarrow> callback \<Rightarrow> pyval list \<Rightarrow> unit action" where
  "invoke user (Hook n obj) args s = user (Hook n obj) args s"
| "invoke user (WindowClose w) args s =
     (if length args \<le> 1 then Window_close w s else raise TypeError s)"
| "invoke user (WindowDemux w) args s = Window_private_on_mouse_motion user w args s"

section \<open>Event dispatch\<close>

text \<open>Attribute access on an event, and \<^verbatim>\<open>*value\<close> in an argument list.\<close>

definition event_attr :: "event \<Rightarrow> string \<Rightarrow> exn + pyval" where
  "event_attr e n = (case map_of (attrs e) n of None \<Rightarrow> Inl (AttributeError n) | Some v \<Rightarrow> Inr v)"

fun unpack :: "pyval \<Rightarrow> exn + pyval list" where
  "unpack (VTuple xs) = Inr xs"
| "unpack (VStr cs) = Inr (map (\<lambda>c. VStr [c]) cs)"
| "unpack _ = Inl TypeError"

definition and_then :: "exn + 'a \<Rightarrow> ('a \<Rightarrow> exn + 'b) \<Rightarrow> exn + 'b" where
  "and_then r f = (case r of Inl e \<Rightarrow> Inl e | Inr a \<Rightarrow> f a)"

text \<open>
  The argument tuple of each event type, as \<^verbatim>\<open>event_mapping\<close> lists them; the mouse
  position and the key modifiers are read live. Any other type gets no arguments.
\<close>

definition event_mapping :: "pstate \<Rightarrow> event \<Rightarrow> exn + pyval list" where
  "event_mapping s e =
     (let t = etype e in
      if t = KEYUP \<or> t = KEYDOWN then
        and_then (event_attr e ''key'') (\<lambda>k.
        and_then (event_attr e ''mod'') (\<lambda>m. Inr [k, m]))
      else if t = WINDOWENTER \<or> t = WINDOWLEAVE then
        Inr [VInt (fst (mouse_pos s)), VInt (snd (mouse_pos s))]
      else if t = MOUSEMOTION then
        and_then (event_attr e ''pos'') (\<lambda>pos.
        and_then (unpack pos) (\<lambda>ps.
        and_then (event_attr e ''rel'') (\<lambda>rel.
        and_then (unpack rel) (\<lambda>rs.
        and_then (event_attr e ''buttons'') (\<lambda>buttons.
          Inr (ps @ rs @ [buttons, VInt (key_mods s)]))))))
      else if t = MOUSEBUTTONUP \<or> t = MOUSEBUTTONDOWN then
        and_then (event_attr e ''pos'') (\<lambda>pos.
        and_then (unpack pos) (\<lambda>ps.
        and_then (event_attr e ''button'') (\<lambda>button.
          Inr (ps @ [button, VInt (key_mods s)]))))
      else if t = MOUSEWHEEL then
        and_then (event_attr e ''x'') (\<lambda>x.
        and_then (event_attr e ''y'') (\<lambda>y.
          Inr [VInt (fst (mouse_pos s)), VInt (snd (mouse_pos s)), x, y]))
      else if t = WINDOWRESIZED then
        and_then (event_attr e ''x'') (\<lambda>x.
        and_then (event_attr e ''y'') (\<lambda>y. Inr [x, y]))
      else Inr [])"

text \<open>
  \<^verbatim>\<open>for callback in handlers.values(): callback(*args)\<close>: the callbacks of the event's
  type, in dictionary order, each with the arguments computed at its call.
\<close>

fun dispatch :: "hooks \<Rightarrow> event \<Rightarrow> callback list \<Rightarrow> unit action" where
  "dispatch user ev [] s = returns () s"
| "dispatch user ev (cb # cbs) s =
     (case event_mapping s ev of
        Inl e \<Rightarrow> raise e s
      | Inr args \<Rightarrow>
          (case invoke user cb args s of
             (Inl e, s') \<Rightarrow> (Inl e, s')
           | (Inr _, s') \<Rightarrow> dispatch user ev cbs s'))"

text \<open>
  \<^verbatim>\<open>for event in pygame.event.get()\<close>: the handlers of an event are looked up when the
  loop reaches it, in the registry of window \<open>w\<close> as it is then; an event type with no
  handlers is dropped.
\<close>

fun handle_each :: "hooks \<Rightarrow> nat \<Rightarrow> event list \<Rightarrow> unit action" where
  "handle_each user w [] s = returns () s"
| "handle_each user w (ev # evs) s =
     (case dispatch user ev (map snd (slots (event_manager (windows s w)) (etype ev))) s of
        (Inl e, s') \<Rightarrow> (Inl e, s')
      | (Inr _, s') \<Rightarrow> handle_each user w evs s')"

definition handle_events :: "hooks \<Rightarrow> nat \<Rightarrow> unit action" where
  "handle_events user w s = handle_each user w (queue s) (s\<lparr>queue := []\<rparr>)"

section \<open>The render loop and its context\<close>

text \<open>\<^verbatim>\<open>clear()\<close> fills \<^verbatim>\<open>_screen\<close> with the background colour.\<close>

definition Window_clear :: "nat \<Rightarrow> unit action" where
  "Window_clear w s =
     (case screen (windows s w) of
        None \<Rightarrow> raise (AttributeError ''fill'') s
      | Some _ \<Rightarrow>
          returns () (update_window w (\<lambda>win. win\<lparr>screen := Some (background_color win)\<rparr>) s))"

text \<open>
  One pass of the loop body: dispatch, clear, \<^verbatim>\<open>on_update()\<close>, \<^verbatim>\<open>on_draw()\<close>; the flip
  and the clock tick (at a non-zero update rate) have no effect on this state.
\<close>

definition loop_body :: "hooks \<Rightarrow> nat \<Rightarrow> unit action" where
  "loop_body user w =
     then_do (handle_events user w) (\<lambda>_.
     then_do (Window_clear w) (\<lambda>_.
     then_do (\<lambda>s. user (on_update (windows s w)) [] s) (\<lambda>_.
             (\<lambda>s. user (on_draw (windows s w)) [] s))))"

text \<open>
  \<^verbatim>\<open>while runner.active: ...\<close>. The events that arrive from outside are the input: one
  batch per pass, queued before the pass polls. The loop has no end of its own, so when
  the batches run out while the flag is still set the result is \<open>None\<close>.
\<close>

fun run_loop :: "hooks \<Rightarrow> nat \<Rightarrow> event list list \<Rightarrow> pstate \<Rightarrow> ((exn + unit) \<times> pstate) option" where
  "run_loop user w [] s =
     (if \<not> ctx_active (windows s w) then Some (Inr (), s) else None)"
| "run_loop user w (f # fs) s =
     (if \<not> ctx_active (windows s w) then Some (Inr (), s)
      else (case loop_body user w (s\<lparr>queue := queue s @ f\<rparr>) of
              (Inl e, s') \<Rightarrow> Some (Inl e, s')
            | (Inr _, s') \<Rightarrow> run_loop user w fs s'))"

text \<open>
  \<^verbatim>\<open>_WindowContext\<close>: \<^verbatim>\<open>__enter__\<close> sets the flag; \<^verbatim>\<open>__exit__\<close> returns
  \<^verbatim>\<open>False\<close> at once when it is given an exception, which therefore goes on, and
  otherwise clears the flag and calls \<^verbatim>\<open>self.window.close()\<close>.
\<close>

definition WindowContext_enter :: "nat \<Rightarrow> pstate \<Rightarrow> pstate" where
  "WindowContext_enter w s = update_window w (\<lambda>win. win\<lparr>ctx_active := True\<rparr>) s"

fun WindowContext_exit :: "nat \<Rightarrow> exn option \<Rightarrow> unit action" where
  "WindowContext_exit w (Some e) s = raise e s"
| "WindowContext_exit w None s =
     Window_close w (update_window w (\<lambda>win. win\<lparr>ctx_active := False\<rparr>) s)"

text \<open>
  \<^verbatim>\<open>Window.run\<close>: \<^verbatim>\<open>pygame.display.set_mode\<close> gives the surface, then the loop runs
  inside \<^verbatim>\<open>with self._ctx as runner\<close>.
\<close>

definition Window_set_mode :: "nat \<Rightarrow> pstate \<Rightarrow> pstate" where
  "Window_set_mode w s =
     update_window w (\<lambda>win. win\<lparr>screen := Some (VTuple [VInt 0, VInt 0, VInt 0])\<rparr>) s"

definition Window_run :: "hooks \<Rightarrow> nat \<Rightarrow> event list list \<Rightarrow> pstate \<Rightarrow> ((exn + unit) \<times> pstate) option" where
  "Window_run user w frames s =
     (case run_loop user w frames (WindowContext_enter w (Window_set_mode w s)) of
        None \<Rightarrow> None
      | Some (Inl e, s3) \<Rightarrow> Some (WindowContext_exit w (Some e) s3)
      | Some (Inr _, s3) \<Rightarrow> Some (WindowContext_exit w None s3))"

section \<open>View\<close>

text \<open>
  A \<^verbatim>\<open>View\<close> object: its own address, the window it refers to, and what reading an
  attribute of it gives (\<^verbatim>\<open>self.on_draw\<close>, \<^verbatim>\<open>self.setup\<close>, ...): any callable, with a
  \<^verbatim>\<open>__name__\<close> of its own. A class is the attribute lookup of its instances, given their
  address. For \<^verbatim>\<open>View\<close> itself, and for a subclass that overrides the handler surface by
  \<^verbatim>\<open>def\<close>s of the surface's names, attribute \<open>n\<close> is the bound method named \<open>n\<close>.
\<close>

record View =
  view_self :: nat
  window :: nat
  view_attr :: "string \<Rightarrow> callback"

type_synonym view_class = "nat \<Rightarrow> string \<Rightarrow> callback"

definition View_class :: view_class where
  "View_class self n = Hook n (ViewObj self)"

text \<open>
  \<^verbatim>\<open>__register_callers\<close>: nine attributes of the window are bound to the view's methods,
  then the window registers its events again.
\<close>

definition View_register_callers :: "View \<Rightarrow> pstate \<Rightarrow> pstate" where
  "View_register_callers v s =
     Window_register_events (window v)
       (update_window (window v) (\<lambda>win. win
          \<lparr>on_draw := view_attr v ''on_draw'',
           on_update := view_attr v ''on_update'',
           on_key_press := view_attr v ''on_key_press'',
           on_key_release := view_attr v ''on_key_release'',
           on_mouse_leave := view_attr v ''on_mouse_leave'',
           on_mouse_enter := view_attr v ''on_mouse_enter'',
           on_mouse_press := view_attr v ''on_mouse_press'',
           on_mouse_release := view_attr v ''on_mouse_release'',
           on_mouse_scroll := view_attr v ''on_mouse_scroll''\<rparr>) s)"

text \<open>
  \<^verbatim>\<open>View.__init__(window)\<close> on a new instance of class \<open>cls\<close>: \<^verbatim>\<open>self.window = window\<close>,
  then \<^verbatim>\<open>__register_callers()\<close>.
\<close>

definition View_init :: "view_class \<Rightarrow> nat \<Rightarrow> pstate \<Rightarrow> View \<times> pstate" where
  "View_init cls win s =
     (let v = \<lparr>view_self = next_obj s, window = win, view_attr = cls (next_obj s)\<rparr>
      in (v, View_register_callers v (s\<lparr>next_obj := Suc (next_obj s)\<rparr>)))"

text \<open>\<^verbatim>\<open>show()\<close>: \<^verbatim>\<open>__register_callers()\<close>, then the \<^verbatim>\<open>setup()\<close> hook.\<close>

definition View_show :: "hooks \<Rightarrow> View \<Rightarrow> unit action" where
  "View_show user v =
     then_do (modify (View_register_callers v)) (\<lambda>_.
       user (view_attr v ''setup'') [])"

definition View_run :: "hooks \<Rightarrow> View \<Rightarrow> event list list \<Rightarrow> pstate \<Rightarrow> ((exn + unit) \<times> pstate) option" where
  "View_run user v frames s =
     (case View_show user v s of
        (Inl e, s') \<Rightarrow> Some (Inl e, s')
      | (Inr _, s') \<Rightarrow> Window_run user (window v) frames s')"

text \<open>
  The callables bound to a window: its fourteen handler attributes, and its registry as
  the table of each event type.
\<close>

definition bound_callbacks :: "Window \<Rightarrow> callback list" where
  "bound_callbacks win =
     [on_draw win, on_update win, on_key_press win, on_key_release win,
      on_mouse_enter win, on_mouse_leave win, on_mouse_motion win, on_mouse_drag win,
      on_mouse_press win, on_mouse_release win, on_mouse_scroll win, on_resize win,
      on_focus win, on_blur win]"

definition bindings :: "Window \<Rightarrow> callback list \<times> (int \<Rightarrow> (string \<rightharpoonup> callback))" where
  "bindings win = (bound_callbacks win, handler_table (event_manager win))"

section \<open>Timers and user events\<close>

text \<open>
  Modelled from the spec: \<^verbatim>\<open>pygame.time.set_timer(event, millis)\<close>, the event source's
  primitive to install or cancel a repeating timer. \<open>millis\<close> is read as a C \<^verbatim>\<open>int\<close>, so a
  value outside 32 bits is an \<^verbatim>\<open>OverflowError\<close>. A value of 0 (or below) cancels the timer
  of the event's type; a positive value sets the timer of that type, replacing an earlier
  one, to post the event every \<open>millis\<close> milliseconds from now on.
\<close>

definition pygame_time_set_timer :: "event \<Rightarrow> int \<Rightarrow> unit action" where
  "pygame_time_set_timer ev millis s =
     (if 2 ^ 31 \<le> millis \<or> millis < - (2 ^ 31) then raise OverflowError s
      else if millis \<le> 0 then
        returns () (s\<lparr>timers := AList.delete (etype ev) (timers s)\<rparr>)
      else
        returns () (s\<lparr>timers := AList.update (etype ev) (attrs ev, millis, clock s) (timers s)\<rparr>))"

text \<open>
  Modelled from the spec: the passing of time in pygame. The events the timer of type \<open>t\<close>
  posts when the clock reaches \<open>now\<close>: its event, when \<open>now\<close> is a whole number of intervals
  after the timer was set. One millisecond passing advances the clock and queues what the
  timers post then, each event type once.
\<close>

definition timer_due ::
    "(int \<times> (string \<times> pyval) list \<times> int \<times> int) list \<Rightarrow> int \<Rightarrow> int \<Rightarrow> event list" where
  "timer_due tm now t =
     (case map_of tm t of
        None \<Rightarrow> []
      | Some (a, interval, start) \<Rightarrow>
          if 0 < interval \<and> start < now \<and> (now - start) mod interval = 0
          then [\<lparr>etype = t, attrs = a\<rparr>] else [])"

definition pygame_tick :: "pstate \<Rightarrow> pstate" where
  "pygame_tick s =
     s\<lparr>clock := clock s + 1,
       queue := queue s @ concat (map (timer_due (timers s) (clock s + 1))
                                    (remdups (map fst (timers s))))\<rparr>"

text \<open>
  \<open>n\<close> milliseconds passing. What the timers queue is what the next
  \<^verbatim>\<open>handle_events()\<close> drains and dispatches.
\<close>

fun pygame_time_passes :: "nat \<Rightarrow> pstate \<Rightarrow> pstate" where
  "pygame_time_passes 0 s = s"
| "pygame_time_passes (Suc n) s = pygame_tick (pygame_time_passes n s)"

text \<open>The events of type \<open>t\<close> queued in \<open>s'\<close> since \<open>s\<close>.\<close>

definition posted_since :: "pstate \<Rightarrow> pstate \<Rightarrow> int \<Rightarrow> event list" where
  "posted_since s s' t = filter (\<lambda>e. etype e = t) (drop (length (queue s)) (queue s'))"

text \<open>
  \<^verbatim>\<open>schedule\<close> and \<^verbatim>\<open>unschedule\<close> of \<^verbatim>\<open>_time\<close>: the check of \<^verbatim>\<open>ms\<close>, then
  \<^verbatim>\<open>pygame.time.set_timer(event, ms)\<close>.
\<close>

definition schedule :: "event \<Rightarrow> int \<Rightarrow> unit action" where
  "schedule ev ms s =
     (if ms \<le> 0 then raise InvalidArgument s
      else pygame_time_set_timer ev ms s)"

definition unschedule :: "event \<Rightarrow> unit action" where
  "unschedule ev s = pygame_time_set_timer ev 0 s"

text \<open>
  A \<^verbatim>\<open>UserEvent\<close> wraps the event it created: the class counter is advanced and the
  type is \<^verbatim>\<open>pygame.USEREVENT + counter\<close>; the name is stored as \<^verbatim>\<open>pgf_name\<close>.
\<close>

record UserEvent =
  uevent :: event

definition create_new_userevent :: "(string \<times> pyval) list \<Rightarrow> pstate \<Rightarrow> event \<times> pstate" where
  "create_new_userevent d s =
     (let c = userevent_counter s + 1
      in (\<lparr>etype = USEREVENT + c, attrs = d\<rparr>, s\<lparr>userevent_counter := c\<rparr>))"

definition UserEvent_init :: "pyval \<Rightarrow> (string \<times> pyval) list \<Rightarrow> pstate \<Rightarrow> UserEvent \<times> pstate" where
  "UserEvent_init name d s =
     (case create_new_userevent d s of
        (ev, s') \<Rightarrow> (\<lparr>uevent = ev\<lparr>attrs := AList.update ''pgf_name'' name (attrs ev)\<rparr>\<rparr>, s'))"

definition UserEvent_schedule :: "UserEvent \<Rightarrow> int \<Rightarrow> unit action" where
  "UserEvent_schedule u ms s =
     (if ms \<le> 0 then raise InvalidArgument s
      else pygame_time_set_timer (uevent u) ms s)"

definition UserEvent_unschedule :: "UserEvent \<Rightarrow> unit action" where
  "UserEvent_unschedule u s = pygame_time_set_timer (uevent u) 0 s"

text \<open>The process before any window exists: pygame initialised, nothing else.\<close>

definition initial_state :: pstate where
  "initial_state =
     \<lparr>window_global = None,
      windows = (\<lambda>w. new_window w 0 0),
      next_obj = 0,
      userevent_counter = 0,
      pygame_running = True,
      caption = VStr ''pygame window'',
      queue = [],
      clock = 0,
      timers = [],
      mouse_pos = (0, 0),
      key_mods = 0\<rparr>"

section \<open>Auxiliary notions for the properties\<close>

text \<open>The key (event type and callback name) of the slot a registration writes.\<close>

definition slot_key :: "int \<times> callback \<Rightarrow> int \<times> string" where
  "slot_key r = (fst r, cb_name (snd r))"

text \<open>The nine assignments of \<^verbatim>\<open>__register_callers\<close> on their own.\<close>

definition rebound :: "View \<Rightarrow> Window \<Rightarrow> Window" where
  "rebound v win = win
     \<lparr>on_draw := view_attr v ''on_draw'',
      on_update := view_attr v ''on_update'',
      on_key_press := view_attr v ''on_key_press'',
      on_key_release := view_attr v ''on_key_release'',
      on_mouse_leave := view_attr v ''on_mouse_leave'',
      on_mouse_enter := view_attr v ''on_mouse_enter'',
      on_mouse_press := view_attr v ''on_mouse_press'',
      on_mouse_release := view_attr v ''on_mouse_release'',
      on_mouse_scroll := view_attr v ''on_mouse_scroll''\<rparr>"

text \<open>
  A view is the active one of a window when the nine attributes hold its callables and the
  seven registry slots fed from them, each under the \<^verbatim>\<open>__name__\<close> of its callable, hold
  them too.
\<close>

definition view_is_active :: "View \<Rightarrow> Window \<Rightarrow> bool" where
  "view_is_active v win \<longleftrightarrow>
     on_draw win = view_attr v ''on_draw'' \<and>
     on_update win = view_attr v ''on_update'' \<and>
     on_key_press win = view_attr v ''on_key_press'' \<and>
     on_key_release win = view_attr v ''on_key_release'' \<and>
     on_mouse_leave win = view_attr v ''on_mouse_leave'' \<and>
     on_mouse_enter win = view_attr v ''on_mouse_enter'' \<and>
     on_mouse_press win = view_attr v ''on_mouse_press'' \<and>
     on_mouse_release win = view_attr v ''on_mouse_release'' \<and>
     on_mouse_scroll win = view_attr v ''on_mouse_scroll'' \<and>
     handler_table (event_manager win) KEYDOWN (cb_name (view_attr v ''on_key_press'')) =
       Some (view_attr v ''on_key_press'') \<and>
     handler_table (event_manager win) KEYUP (cb_name (view_attr v ''on_key_release'')) =
       Some (view_attr v ''on_key_release'') \<and>
     handler_table (event_manager win) WINDOWLEAVE (cb_name (view_attr v ''on_mouse_leave'')) =
       Some (view_attr v ''on_mouse_leave'') \<and>
     handler_table (event_manager win) WINDOWENTER (cb_name (view_attr v ''on_mouse_enter'')) =
       Some (view_attr v ''on_mouse_enter'') \<and>
     handler_table (event_manager win) MOUSEBUTTONDOWN (cb_name (view_attr v ''on_mouse_press'')) =
       Some (view_attr v ''on_mouse_press'') \<and>
     handler_table (event_manager win) MOUSEBUTTONUP (cb_name (view_attr v ''on_mouse_release'')) =
       Some (view_attr v ''on_mouse_release'') \<and>
     handler_table (event_manager win) MOUSEWHEEL (cb_name (view_attr v ''on_mouse_scroll'')) =
       Some (view_attr v ''on_mouse_scroll'')"

text \<open>
  Two views file their handlers under the same names when, for each of the seven
  attributes that feed the registry, their callables have the same \<^verbatim>\<open>__name__\<close>. Views that
  define their handlers by \<^verbatim>\<open>def\<close> under the surface's names do.
\<close>

definition same_handler_names :: "View \<Rightarrow> View \<Rightarrow> bool" where
  "same_handler_names A B \<longleftrightarrow>
     list_all (\<lambda>n. cb_name (view_attr A n) = cb_name (view_attr B n))
       [''on_key_press'', ''on_key_release'', ''on_mouse_leave'', ''on_mouse_enter'',
        ''on_mouse_press'', ''on_mouse_release'', ''on_mouse_scroll'']"

text \<open>
  The seven slots that the activation of \<open>B\<close> fills with callables of \<open>B\<close> are retaken by
  \<open>A\<close> when each of them holds the callable of \<open>A\<close> for the same attribute.
\<close>

definition slots_retaken :: "View \<Rightarrow> View \<Rightarrow> Window \<Rightarrow> bool" where
  "slots_retaken B A win \<longleftrightarrow>
     list_all (\<lambda>(t, n). handler_table (event_manager win) t (cb_name (view_attr B n)) =
                          Some (view_attr A n))
       [(KEYDOWN, ''on_key_press''), (KEYUP, ''on_key_release''),
        (WINDOWLEAVE, ''on_mouse_leave''), (WINDOWENTER, ''on_mouse_enter''),
        (MOUSEBUTTONDOWN, ''on_mouse_press''), (MOUSEBUTTONUP, ''on_mouse_release''),
        (MOUSEWHEEL, ''on_mouse_scroll'')]"

text \<open>
  \<^verbatim>\<open>setup()\<close> is user code, called by \<^verbatim>\<open>show()\<close> after the handlers are installed. A
  \<^verbatim>\<open>setup()\<close> keeps the bindings when it leaves the window's handler attributes and the
  tables of its registry as they are (setting a title or a background colour, as the
  views of the example do, is of this kind).
\<close>

definition setup_keeps_bindings :: "hooks \<Rightarrow> View \<Rightarrow> bool" where
  "setup_keeps_bindings user v \<longleftrightarrow>
     (\<forall>s. bindings (windows (snd (user (view_attr v ''setup'') [] s)) (window v)) =
          bindings (windows s (window v)))"

text \<open>
  Sample user code and inputs: hooks that write their own name into the caption, an
  \<^verbatim>\<open>on_update\<close> that clears the run flag of its window, an \<^verbatim>\<open>on_draw\<close> that raises, a
  \<^verbatim>\<open>setup()\<close> of view 2 that registers one more key handler on window 0, a \<^verbatim>\<open>setup()\<close> of
  view 1 that does \<^verbatim>\<open>self.window.on_mouse_motion = self.on_mouse_motion\<close> together with
  an \<^verbatim>\<open>on_mouse_motion\<close> override of view 1 that sets the caption, a mouse motion
  event, the process after \<^verbatim>\<open>Window(800, 600, "game")\<close>, instances of \<^verbatim>\<open>View\<close> and of a
  subclass whose body has \<^verbatim>\<open>on_key_release = on_key_press\<close>, and the process after
  \<^verbatim>\<open>w = Window(800, 600, "game"); a = View(w); b = cls(w)\<close>, where \<open>w\<close>, \<open>a\<close> and \<open>b\<close> get
  the addresses 0, 1 and 2.
\<close>

definition titled_hooks :: hooks where
  "titled_hooks cb args = modify (\<lambda>s. s\<lparr>caption := VStr (cb_name cb)\<rparr>)"

definition stopping_hooks :: hooks where
  "stopping_hooks cb args =
     (case cb of
        Hook n (WindowObj w) \<Rightarrow>
          if n = ''on_update'' then modify (update_window w (\<lambda>win. win\<lparr>ctx_active := False\<rparr>))
          else returns ()
      | _ \<Rightarrow> returns ())"

definition failing_hooks :: hooks where
  "failing_hooks cb args =
     (if cb_name cb = ''on_draw'' then raise (Raised ''boom'') else returns ())"

definition registering_hooks :: hooks where
  "registering_hooks cb args =
     (if cb = Hook ''setup'' (ViewObj 2)
      then modify (update_window 0 (\<lambda>win. win\<lparr>event_manager :=
             add_event_handler KEYDOWN (Hook ''on_extra_key'' (ViewObj 2)) (event_manager win)\<rparr>))
      else returns ())"

definition rebinding_hooks :: hooks where
  "rebinding_hooks cb args =
     (if cb = Hook ''setup'' (ViewObj 1)
      then modify (update_window 0 (\<lambda>win. win\<lparr>on_mouse_motion :=
             Hook ''on_mouse_motion'' (ViewObj 1)\<rparr>))
      else if cb = Hook ''on_mouse_motion'' (ViewObj 1)
      then modify (\<lambda>s. s\<lparr>caption := VStr ''view 1 moved''\<rparr>)
      else returns ())"

definition plain_view :: "nat \<Rightarrow> nat \<Rightarrow> View" where
  "plain_view self w = \<lparr>view_self = self, window = w, view_attr = View_class self\<rparr>"

definition Aliasing_class :: view_class where
  "Aliasing_class self = (View_class self)(''on_key_release'' := View_class self ''on_key_press'')"

definition aliasing_view :: "nat \<Rightarrow> nat \<Rightarrow> View" where
  "aliasing_view self w = \<lparr>view_self = self, window = w, view_attr = Aliasing_class self\<rparr>"


definition motion_event :: "pyval \<Rightarrow> event" where
  "motion_event buttons =
     \<lparr>etype = MOUSEMOTION,
      attrs = [(''pos'', VTuple [VInt 10, VInt 20]), (''rel'', VTuple [VInt 1, VInt 2]),
               (''buttons'', buttons)]\<rparr>"

definition game_state :: pstate where
  "game_state = snd (Window_init 800 600 (VStr ''game'') initial_state)"

definition views_state :: "view_class \<Rightarrow> pstate" where
  "views_state cls = snd (View_init cls 0 (snd (View_init View_class 0 game_state)))"

section \<open>The registry refines the replay semantics\<close>

lemmas event_consts =
  QUIT_def KEYDOWN_def KEYUP_def MOUSEMOTION_def MOUSEBUTTONDOWN_def MOUSEBUTTONUP_def
  MOUSEWHEEL_def WINDOWRESIZED_def WINDOWENTER_def WINDOWLEAVE_def WINDOWFOCUSGAINED_def
  WINDOWFOCUSLOST_def

lemma handler_table_add:
  "handler_table (add_event_handler t cb em) =
     (handler_table em)(t := (handler_table em t)(cb_name cb \<mapsto> cb))"
  by (rule ext)
     (simp add: handler_table_def add_event_handler_def Let_def update_conv'
           split: option.splits)

lemma handler_table_remove:
  "handler_table (remove_event_handler t cb em) =
     (handler_table em)(t := (handler_table em t)(cb_name cb := None))"
  by (rule ext)
     (auto simp: handler_table_def remove_event_handler_def update_conv' delete_conv'
           split: option.splits)

lemma spec_replay_call_remove:
  "spec_replay_call (Remove t cb) tbl = tbl(t := (tbl t)(cb_name cb := None))"
  by (auto simp: fun_eq_iff domIff)

lemma handler_table_apply_call:
  "handler_table (apply_call c em) = spec_replay_call c (handler_table em)"
proof (cases c)
  case (Add t cb)
  then show ?thesis by (simp add: handler_table_add)
next
  case (Remove t cb)
  then show ?thesis
    by (simp only: apply_call.simps handler_table_remove spec_replay_call_remove)
qed

lemma handler_table_run_calls:
  "handler_table (run_calls cs em) = spec_replay cs (handler_table em)"
  by (induction cs arbitrary: em) (simp_all add: handler_table_apply_call)

lemma handler_table_init: "handler_table EventManager_init = spec_empty"
  by (rule ext) (simp add: handler_table_def EventManager_init_def spec_empty_def)

lemma list_all_update:
  "list_all (\<lambda>(k, v). P v) al \<Longrightarrow> P v \<Longrightarrow> list_all (\<lambda>(k, v). P v) (AList.update k v al)"
  by (induction al) (auto)

lemma list_all_map_of:
  "list_all (\<lambda>(k, v). P v) al \<Longrightarrow> map_of al k = Some v \<Longrightarrow> P v"
  by (induction al) (auto split: if_splits)

lemma one_per_name_add: "one_per_name em \<Longrightarrow> one_per_name (add_event_handler t cb em)"
  unfolding one_per_name_def add_event_handler_def Let_def
  by (cases "map_of (event_handlers em) t")
     (auto intro!: list_all_update [where P = "\<lambda>hs. distinct (map fst hs)"]
           dest: list_all_map_of [where P = "\<lambda>hs. distinct (map fst hs)"]
           simp: distinct_update)

lemma one_per_name_remove: "one_per_name em \<Longrightarrow> one_per_name (remove_event_handler t cb em)"
  unfolding one_per_name_def remove_event_handler_def
  by (cases "map_of (event_handlers em) t")
     (auto intro!: list_all_update [where P = "\<lambda>hs. distinct (map fst hs)"]
           dest: list_all_map_of [where P = "\<lambda>hs. distinct (map fst hs)"]
           simp: distinct_delete)

lemma one_per_name_run_calls: "one_per_name em \<Longrightarrow> one_per_name (run_calls cs em)"
proof (induction cs arbitrary: em)
  case Nil
  then show ?case by simp
next
  case (Cons c cs)
  have "one_per_name (apply_call c em)"
    using Cons.prems by (cases c) (simp_all add: one_per_name_add one_per_name_remove)
  then show ?case using Cons.IH by simp
qed

lemma one_per_name_slots: "one_per_name em \<Longrightarrow> distinct (map fst (slots em t))"
  unfolding one_per_name_def slots_def
  by (cases "map_of (event_handlers em) t")
     (auto dest: list_all_map_of [where P = "\<lambda>hs. distinct (map fst hs)"])

lemma handler_table_slots: "handler_table em t = map_of (slots em t)"
  by (simp add: handler_table_def slots_def split: option.splits)

lemma one_per_name_init: "one_per_name EventManager_init"
  by (simp add: one_per_name_def EventManager_init_def)

text \<open>
  C2. Run any finite sequence of \<^verbatim>\<open>add_event_handler\<close> and \<^verbatim>\<open>remove_event_handler\<close>
  calls on a fresh \<^verbatim>\<open>EventManager\<close>. The handler table of every event type is the table
  the replay semantics gives for the same sequence (a callback is keyed by its declared
  name and overwrites the slot of that name; removing what is absent changes nothing),
  and the slots of every event type carry pairwise different names, so the table is
  exactly the slot list read by name.
\<close>

theorem registry_replays_calls:
  "handler_table (run_calls cs EventManager_init) t = spec_replay cs spec_empty t \<and>
   distinct (map fst (slots (run_calls cs EventManager_init) t)) \<and>
   map_of (slots (run_calls cs EventManager_init) t) = spec_replay cs spec_empty t"
proof -
  have table: "handler_table (run_calls cs EventManager_init) = spec_replay cs spec_empty"
    by (simp only: handler_table_run_calls handler_table_init)
  have names: "distinct (map fst (slots (run_calls cs EventManager_init) t))"
    by (intro one_per_name_slots one_per_name_run_calls one_per_name_init)
  from table names show ?thesis
    by (simp add: handler_table_slots [symmetric])
qed

theorem registry_replays_calls_witness:
  "handler_table
     (run_calls [Add 768 (Hook ''f'' (FunctionObj 0)), Add 768 (Hook ''g'' (FunctionObj 1)),
                 Add 768 (Hook ''f'' (FunctionObj 2)), Remove 768 (Hook ''g'' (FunctionObj 3)),
                 Remove 769 (Hook ''f'' (FunctionObj 2))] EventManager_init) 768
   = [''f'' \<mapsto> Hook ''f'' (FunctionObj 2)]"
  using registry_replays_calls
    [of "[Add 768 (Hook ''f'' (FunctionObj 0)), Add 768 (Hook ''g'' (FunctionObj 1)),
          Add 768 (Hook ''f'' (FunctionObj 2)), Remove 768 (Hook ''g'' (FunctionObj 3)),
          Remove 769 (Hook ''f'' (FunctionObj 2))]" 768]
  by (simp add: spec_empty_def fun_eq_iff)

section \<open>Replaying registrations\<close>

text \<open>
  \<^verbatim>\<open>__register_events\<close> is a run of twelve \<^verbatim>\<open>Add\<close> calls, so its effect on the
  tables is a replay. Replaying a list of additions after another list that writes no
  other slots gives what the later list gives alone: every earlier slot is overwritten.
\<close>

lemma adds_simps:
  "adds [] = []"
  "adds ((t, cb) # rs) = Add t cb # adds rs"
  by (simp_all add: adds_def)

lemma handler_table_register_events:
  "handler_table (register_events_em w win) =
     spec_replay (adds (registrations w win)) (handler_table (event_manager win))"
  by (simp only: register_events_em_def handler_table_run_calls)

lemma spec_add_commute:
  "slot_key (t, cb) \<noteq> slot_key (t', cb') \<Longrightarrow>
   spec_replay_call (Add t' cb') (spec_replay_call (Add t cb) T) =
   spec_replay_call (Add t cb) (spec_replay_call (Add t' cb') T)"
  by (auto simp: slot_key_def fun_eq_iff)

lemma spec_add_overwrite:
  "slot_key (t, cb) = slot_key (t', cb') \<Longrightarrow>
   spec_replay_call (Add t' cb') (spec_replay_call (Add t cb) T) =
   spec_replay_call (Add t' cb') T"
  by (auto simp: slot_key_def fun_eq_iff)

lemma spec_replay_adds_absorb:
  "slot_key (t, cb) \<in> slot_key ` set rs \<Longrightarrow>
   spec_replay (adds rs) (spec_replay_call (Add t cb) T) = spec_replay (adds rs) T"
proof (induction rs arbitrary: T)
  case Nil
  then show ?case by simp
next
  case (Cons r rs)
  obtain t' cb' where r: "r = (t', cb')" by (cases r)
  show ?case
  proof (cases "slot_key (t, cb) = slot_key (t', cb')")
    case True
    show ?thesis
      by (simp only: r adds_simps spec_replay.simps spec_add_overwrite [OF True])
  next
    case False
    with Cons.prems have "slot_key (t, cb) \<in> slot_key ` set rs" by (auto simp: r)
    from Cons.IH [OF this, of "spec_replay_call (Add t' cb') T"]
    show ?thesis
      by (simp only: r adds_simps spec_replay.simps spec_add_commute [OF False])
  qed
qed

lemma spec_replay_adds_overwrite:
  "slot_key ` set rs' \<subseteq> slot_key ` set rs \<Longrightarrow>
   spec_replay (adds rs) (spec_replay (adds rs') T) = spec_replay (adds rs) T"
proof (induction rs' arbitrary: T)
  case Nil
  then show ?case by (simp add: adds_simps)
next
  case (Cons r rs')
  obtain t cb where r: "r = (t, cb)" by (cases r)
  from Cons.prems have k: "slot_key (t, cb) \<in> slot_key ` set rs"
    and sub: "slot_key ` set rs' \<subseteq> slot_key ` set rs" by (auto simp: r)
  have "spec_replay (adds rs) (spec_replay (adds (r # rs')) T) =
        spec_replay (adds rs) (spec_replay (adds rs') (spec_replay_call (Add t cb) T))"
    by (simp only: r adds_simps spec_replay.simps)
  also have "\<dots> = spec_replay (adds rs) (spec_replay_call (Add t cb) T)"
    by (rule Cons.IH [OF sub])
  also have "\<dots> = spec_replay (adds rs) T"
    by (rule spec_replay_adds_absorb [OF k])
  finally show ?case .
qed

section \<open>What \<^verbatim>\<open>__register_callers\<close> does to a window\<close>

lemma windows_update_window:
  "windows (update_window w f s) = (windows s)(w := f (windows s w))"
  by (simp add: update_window_def)

lemma cb_name_View_class: "cb_name (View_class self n) = n"
  by (simp add: View_class_def)

lemma register_callers_window:
  "windows (View_register_callers v s) (window v) =
     (rebound v (windows s (window v)))
       \<lparr>event_manager := register_events_em (window v) (rebound v (windows s (window v)))\<rparr>"
  by (simp add: View_register_callers_def Window_register_events_def windows_update_window rebound_def)

lemma register_callers_other:
  "w' \<noteq> window v \<Longrightarrow> windows (View_register_callers v s) w' = windows s w'"
  by (simp add: View_register_callers_def Window_register_events_def windows_update_window)

lemma unrebound_register_callers:
  "on_mouse_motion (windows (View_register_callers v s) (window v)) = on_mouse_motion (windows s (window v))"
  "on_mouse_drag (windows (View_register_callers v s) (window v)) = on_mouse_drag (windows s (window v))"
  "on_resize (windows (View_register_callers v s) (window v)) = on_resize (windows s (window v))"
  "on_focus (windows (View_register_callers v s) (window v)) = on_focus (windows s (window v))"
  "on_blur (windows (View_register_callers v s) (window v)) = on_blur (windows s (window v))"
  by (simp_all add: register_callers_window rebound_def)

lemma bound_callbacks_register_callers:
  "bound_callbacks (windows (View_register_callers v s) (window v)) =
     [view_attr v ''on_draw'', view_attr v ''on_update'', view_attr v ''on_key_press'',
      view_attr v ''on_key_release'', view_attr v ''on_mouse_enter'',
      view_attr v ''on_mouse_leave'', on_mouse_motion (windows s (window v)),
      on_mouse_drag (windows s (window v)), view_attr v ''on_mouse_press'',
      view_attr v ''on_mouse_release'', view_attr v ''on_mouse_scroll'',
      on_resize (windows s (window v)), on_focus (windows s (window v)),
      on_blur (windows s (window v))]"
  by (simp add: register_callers_window bound_callbacks_def rebound_def)

lemma registrations_rebound:
  "registrations w (rebound v win) =
     [(QUIT, WindowClose w),
      (WINDOWFOCUSGAINED, on_focus win),
      (WINDOWFOCUSLOST, on_blur win),
      (KEYDOWN, view_attr v ''on_key_press''),
      (KEYUP, view_attr v ''on_key_release''),
      (WINDOWLEAVE, view_attr v ''on_mouse_leave''),
      (WINDOWENTER, view_attr v ''on_mouse_enter''),
      (MOUSEMOTION, WindowDemux w),
      (MOUSEBUTTONDOWN, view_attr v ''on_mouse_press''),
      (MOUSEBUTTONUP, view_attr v ''on_mouse_release''),
      (MOUSEWHEEL, view_attr v ''on_mouse_scroll''),
      (WINDOWRESIZED, on_resize win)]"
  by (simp add: registrations_def rebound_def)

lemma slot_keys_rebound:
  "map slot_key (registrations w (rebound v win)) =
     [(QUIT, ''close''), (WINDOWFOCUSGAINED, cb_name (on_focus win)),
      (WINDOWFOCUSLOST, cb_name (on_blur win)),
      (KEYDOWN, cb_name (view_attr v ''on_key_press'')),
      (KEYUP, cb_name (view_attr v ''on_key_release'')),
      (WINDOWLEAVE, cb_name (view_attr v ''on_mouse_leave'')),
      (WINDOWENTER, cb_name (view_attr v ''on_mouse_enter'')),
      (MOUSEMOTION, ''__on_mouse_motion''),
      (MOUSEBUTTONDOWN, cb_name (view_attr v ''on_mouse_press'')),
      (MOUSEBUTTONUP, cb_name (view_attr v ''on_mouse_release'')),
      (MOUSEWHEEL, cb_name (view_attr v ''on_mouse_scroll'')),
      (WINDOWRESIZED, cb_name (on_resize win))]"
  by (simp add: registrations_rebound slot_key_def)

lemma same_handler_names_refl: "same_handler_names A A"
  by (simp add: same_handler_names_def)

lemma slot_keys_same_names:
  "same_handler_names A B \<Longrightarrow>
   map slot_key (registrations w (rebound B win)) = map slot_key (registrations w (rebound A win))"
  by (simp add: slot_keys_rebound same_handler_names_def)

lemma handler_table_register_callers:
  "handler_table (event_manager (windows (View_register_callers v s) (window v))) =
     spec_replay (adds (registrations (window v) (rebound v (windows s (window v)))))
       (handler_table (event_manager (windows s (window v))))"
  by (simp add: register_callers_window handler_table_register_events)
     (simp add: rebound_def)

lemma bindings_eq_iff:
  "bindings a = bindings b \<longleftrightarrow>
     bound_callbacks a = bound_callbacks b \<and>
     handler_table (event_manager a) = handler_table (event_manager b)"
  by (auto simp: bindings_def)

lemma bindings_register_callers_cong:
  assumes "bindings (windows s (window v)) = bindings (windows s' (window v))"
  shows "bindings (windows (View_register_callers v s) (window v)) =
         bindings (windows (View_register_callers v s') (window v))"
proof -
  from assms have cb: "bound_callbacks (windows s (window v)) = bound_callbacks (windows s' (window v))"
    and tb: "handler_table (event_manager (windows s (window v))) =
             handler_table (event_manager (windows s' (window v)))"
    by (simp_all add: bindings_eq_iff)
  from cb have attrs:
    "on_mouse_motion (windows s (window v)) = on_mouse_motion (windows s' (window v))"
    "on_mouse_drag (windows s (window v)) = on_mouse_drag (windows s' (window v))"
    "on_resize (windows s (window v)) = on_resize (windows s' (window v))"
    "on_focus (windows s (window v)) = on_focus (windows s' (window v))"
    "on_blur (windows s (window v)) = on_blur (windows s' (window v))"
    by (simp_all add: bound_callbacks_def)
  show ?thesis
    unfolding bindings_eq_iff
    by (simp add: bound_callbacks_register_callers handler_table_register_callers
          registrations_rebound attrs tb)
qed

lemma bindings_register_callers_twice:
  assumes "window B = window A" and names: "same_handler_names A B"
  shows "bindings (windows (View_register_callers A (View_register_callers B s)) (window A)) =
         bindings (windows (View_register_callers A s) (window A))"
proof -
  let ?w = "window A"
  let ?sB = "View_register_callers B s"
  have un: "on_mouse_motion (windows ?sB ?w) = on_mouse_motion (windows s ?w)"
    "on_mouse_drag (windows ?sB ?w) = on_mouse_drag (windows s ?w)"
    "on_resize (windows ?sB ?w) = on_resize (windows s ?w)"
    "on_focus (windows ?sB ?w) = on_focus (windows s ?w)"
    "on_blur (windows ?sB ?w) = on_blur (windows s ?w)"
    using unrebound_register_callers [of B s] by (simp_all add: assms(1))
  have regs: "registrations ?w (rebound A (windows ?sB ?w)) = registrations ?w (rebound A (windows s ?w))"
    by (simp add: registrations_rebound un)
  have keys: "slot_key ` set (registrations ?w (rebound B (windows s ?w))) \<subseteq>
              slot_key ` set (registrations ?w (rebound A (windows s ?w)))"
    by (simp only: set_map [symmetric] slot_keys_same_names [OF names] subset_refl)
  have tB: "handler_table (event_manager (windows ?sB ?w)) =
            spec_replay (adds (registrations ?w (rebound B (windows s ?w))))
              (handler_table (event_manager (windows s ?w)))"
    using handler_table_register_callers [of B s] by (simp add: assms(1))
  have "handler_table (event_manager (windows (View_register_callers A ?sB) ?w)) =
        handler_table (event_manager (windows (View_register_callers A s) ?w))"
    by (simp only: handler_table_register_callers regs tB spec_replay_adds_overwrite [OF keys])
  moreover have "bound_callbacks (windows (View_register_callers A ?sB) ?w) =
                 bound_callbacks (windows (View_register_callers A s) ?w)"
    by (simp add: bound_callbacks_register_callers un)
  ultimately show ?thesis by (simp add: bindings_eq_iff)
qed

lemma view_is_active_bindings:
  "bindings a = bindings b \<Longrightarrow> view_is_active v a = view_is_active v b"
  by (simp add: bindings_eq_iff view_is_active_def bound_callbacks_def)

lemma view_is_active_register_callers:
  "view_is_active v (windows (View_register_callers v s) (window v))"
  unfolding view_is_active_def
  by (simp add: handler_table_register_callers registrations_rebound adds_simps event_consts)
     (simp add: register_callers_window rebound_def)

lemma View_show_state:
  "snd (View_show user v s) = snd (user (view_attr v ''setup'') [] (View_register_callers v s))"
  by (simp add: View_show_def then_do_def modify_def)

lemma bindings_View_show:
  assumes "setup_keeps_bindings user v"
  shows "bindings (windows (snd (View_show user v s)) (window v)) =
         bindings (windows (View_register_callers v s) (window v))"
  using assms by (simp add: View_show_state setup_keeps_bindings_def)

lemma default_hooks_keep_bindings: "setup_keeps_bindings default_hooks v"
  by (simp add: setup_keeps_bindings_def default_hooks_def returns_def)

section \<open>The sample window\<close>

lemma Window_init_result:
  "fst (Window_init wd ht title s) = next_obj s"
  "window_global (snd (Window_init wd ht title s)) = Some (next_obj s)"
  by (simp_all add: Window_init_def Let_def Window_register_events_def update_window_def
        set_window_def set_title_def)

lemma Window_init_window:
  "windows (snd (Window_init wd ht title s)) (next_obj s) =
     (new_window (next_obj s) wd ht)
       \<lparr>event_manager := register_events_em (next_obj s) (new_window (next_obj s) wd ht)\<rparr>"
  "next_obj (snd (Window_init wd ht title s)) = Suc (next_obj s)"
  by (simp_all add: Window_init_def Let_def Window_register_events_def update_window_def
        set_window_def set_title_def)

lemma next_obj_initial_state: "next_obj initial_state = 0"
  by (simp add: initial_state_def)

lemma game_state_fields:
  "window_global game_state = Some 0"
  "next_obj game_state = 1"
  "pygame_running game_state"
  "queue game_state = []"
  "key_mods game_state = 0"
  by (simp_all add: game_state_def Window_init_def Let_def Window_register_events_def
        update_window_def set_window_def set_title_def initial_state_def)

lemma windows_game_state:
  "windows game_state 0 =
     (new_window 0 800 600)\<lparr>event_manager := register_events_em 0 (new_window 0 800 600)\<rparr>"
  using Window_init_window(1) [of 800 600 "VStr ''game''" initial_state]
  by (simp only: game_state_def next_obj_initial_state)

lemma new_window_hooks:
  "on_mouse_motion (new_window w wd ht) = Hook ''on_mouse_motion'' (WindowObj w)"
  "on_mouse_drag (new_window w wd ht) = Hook ''on_mouse_drag'' (WindowObj w)"
  "on_update (new_window w wd ht) = Hook ''on_update'' (WindowObj w)"
  "on_draw (new_window w wd ht) = Hook ''on_draw'' (WindowObj w)"
  "on_key_press (new_window w wd ht) = Hook ''on_key_press'' (WindowObj w)"
  by (simp_all add: new_window_def)

lemma slots_new_window: "slots (event_manager (new_window w wd ht)) t = []"
  by (simp add: new_window_def EventManager_init_def slots_def)

lemma slots_add_other:
  "t' \<noteq> t \<Longrightarrow> slots (add_event_handler t cb em) t' = slots em t'"
  by (simp add: slots_def add_event_handler_def Let_def update_conv')

lemma slots_add_same:
  "slots (add_event_handler t cb em) t = AList.update (cb_name cb) cb (slots em t)"
  by (simp add: slots_def add_event_handler_def Let_def update_conv' split: option.splits)

lemma slots_register_events_motion:
  "slots (register_events_em w win) MOUSEMOTION =
     AList.update ''__on_mouse_motion'' (WindowDemux w) (slots (event_manager win) MOUSEMOTION)"
  by (simp add: register_events_em_def registrations_def adds_def slots_add_other slots_add_same
        event_consts)

lemma slots_game_state:
  "slots (event_manager (windows game_state 0)) MOUSEMOTION = [(''__on_mouse_motion'', WindowDemux 0)]"
  by (simp add: windows_game_state slots_register_events_motion slots_new_window)

lemma View_init_result:
  "window (fst (View_init cls w s)) = w"
  "view_self (fst (View_init cls w s)) = next_obj s"
  "view_attr (fst (View_init cls w s)) = cls (next_obj s)"
  "windows (snd (View_init cls w s)) = windows (View_register_callers (fst (View_init cls w s)) s)"
  by (simp_all add: View_init_def Let_def View_register_callers_def Window_register_events_def
        update_window_def)

section \<open>View activation\<close>

lemma sample_views:
  "window (plain_view i w) = w" "view_self (plain_view i w) = i"
  "view_attr (plain_view i w) n = Hook n (ViewObj i)"
  "window (aliasing_view i w) = w" "view_self (aliasing_view i w) = i"
  "view_attr (aliasing_view i w) n =
     (if n = ''on_key_release'' then Hook ''on_key_press'' (ViewObj i) else Hook n (ViewObj i))"
  by (simp_all add: plain_view_def aliasing_view_def Aliasing_class_def View_class_def)

lemma plain_views_same_names: "same_handler_names (plain_view i w) (plain_view j w')"
  by (simp add: same_handler_names_def sample_views)

lemma View_show_default: "snd (View_show default_hooks v s) = View_register_callers v s"
  by (simp add: View_show_state default_hooks_def returns_def)

lemma table_register_callers:
  "window v = w \<Longrightarrow>
   handler_table (event_manager (windows (View_register_callers v s) w)) =
     spec_replay (adds (registrations w (rebound v (windows s w))))
       (handler_table (event_manager (windows s w)))"
  using handler_table_register_callers [of v s] by simp

lemma table_game_state:
  "handler_table (event_manager (windows game_state 0)) =
     spec_replay (adds (registrations 0 (new_window 0 800 600))) spec_empty"
  by (simp add: windows_game_state handler_table_register_events new_window_def
        handler_table_init)

lemma registrations_new_window:
  "registrations w (new_window w' wd ht) =
     [(QUIT, WindowClose w),
      (WINDOWFOCUSGAINED, Hook ''on_focus'' (WindowObj w')),
      (WINDOWFOCUSLOST, Hook ''on_blur'' (WindowObj w')),
      (KEYDOWN, Hook ''on_key_press'' (WindowObj w')),
      (KEYUP, Hook ''on_key_release'' (WindowObj w')),
      (WINDOWLEAVE, Hook ''on_mouse_leave'' (WindowObj w')),
      (WINDOWENTER, Hook ''on_mouse_enter'' (WindowObj w')),
      (MOUSEMOTION, WindowDemux w),
      (MOUSEBUTTONDOWN, Hook ''on_mouse_press'' (WindowObj w')),
      (MOUSEBUTTONUP, Hook ''on_mouse_release'' (WindowObj w')),
      (MOUSEWHEEL, Hook ''on_mouse_scroll'' (WindowObj w')),
      (WINDOWRESIZED, Hook ''on_resize'' (WindowObj w'))]"
  by (simp add: registrations_def new_window_def)

lemma table_register_callers_at:
  assumes "window v = w"
  shows
    "handler_table (event_manager (windows (View_register_callers v s) w)) KEYDOWN =
       (handler_table (event_manager (windows s w)) KEYDOWN)
         (cb_name (view_attr v ''on_key_press'') \<mapsto> view_attr v ''on_key_press'')"
    "handler_table (event_manager (windows (View_register_callers v s) w)) KEYUP =
       (handler_table (event_manager (windows s w)) KEYUP)
         (cb_name (view_attr v ''on_key_release'') \<mapsto> view_attr v ''on_key_release'')"
    "handler_table (event_manager (windows (View_register_callers v s) w)) MOUSEMOTION =
       (handler_table (event_manager (windows s w)) MOUSEMOTION)
         (''__on_mouse_motion'' \<mapsto> WindowDemux w)"
  by (simp_all add: table_register_callers [OF assms] registrations_rebound adds_simps
        event_consts)

lemma table_game_state_at:
  "handler_table (event_manager (windows game_state 0)) KEYDOWN =
     [''on_key_press'' \<mapsto> Hook ''on_key_press'' (WindowObj 0)]"
  "handler_table (event_manager (windows game_state 0)) KEYUP =
     [''on_key_release'' \<mapsto> Hook ''on_key_release'' (WindowObj 0)]"
  "handler_table (event_manager (windows game_state 0)) MOUSEMOTION =
     [''__on_mouse_motion'' \<mapsto> WindowDemux 0]"
  by (simp_all add: table_game_state registrations_new_window adds_simps event_consts
        spec_empty_def)

lemma register_callers_frame:
  "next_obj (View_register_callers v s) = next_obj s"
  "windows s = windows s' \<Longrightarrow>
   windows (View_register_callers v s) = windows (View_register_callers v s')"
  by (simp_all add: View_register_callers_def Window_register_events_def update_window_def)

lemma View_init_next_obj: "next_obj (snd (View_init cls w s)) = Suc (next_obj s)"
  by (simp add: View_init_def Let_def View_register_callers_def Window_register_events_def
        update_window_def)

lemma first_view: "fst (View_init View_class 0 game_state) = plain_view 1 0"
  by (simp add: View_init_def Let_def game_state_fields plain_view_def)

lemma second_view:
  "fst (View_init cls 0 (snd (View_init View_class 0 game_state))) =
     \<lparr>view_self = 2, window = 0, view_attr = cls 2\<rparr>"
  by (simp add: View_init_def [of cls] Let_def View_init_next_obj game_state_fields
        numeral_2_eq_2)

lemma second_view_sample:
  "fst (View_init View_class 0 (snd (View_init View_class 0 game_state))) = plain_view 2 0"
  "fst (View_init Aliasing_class 0 (snd (View_init View_class 0 game_state))) = aliasing_view 2 0"
  by (simp_all add: second_view plain_view_def aliasing_view_def)

lemma windows_views_state:
  "windows (views_state cls) =
     windows (View_register_callers \<lparr>view_self = 2, window = 0, view_attr = cls 2\<rparr>
               (View_register_callers (plain_view 1 0) game_state))"
proof -
  have "windows (snd (View_init View_class 0 game_state)) =
        windows (View_register_callers (plain_view 1 0) game_state)"
    using View_init_result(4) [of View_class 0 game_state] by (simp only: first_view)
  then have "windows (View_register_callers \<lparr>view_self = 2, window = 0, view_attr = cls 2\<rparr>
                 (snd (View_init View_class 0 game_state))) =
             windows (View_register_callers \<lparr>view_self = 2, window = 0, view_attr = cls 2\<rparr>
                 (View_register_callers (plain_view 1 0) game_state))"
    by (rule register_callers_frame(2))
  moreover have "windows (views_state cls) =
      windows (View_register_callers \<lparr>view_self = 2, window = 0, view_attr = cls 2\<rparr>
                 (snd (View_init View_class 0 game_state)))"
    using View_init_result(4) [of cls 0 "snd (View_init View_class 0 game_state)"]
    by (simp only: views_state_def second_view)
  ultimately show ?thesis by (rule trans [rotated])
qed

lemma table_views_state_at:
  "handler_table (event_manager (windows (views_state cls) 0)) KEYDOWN =
     [''on_key_press'' \<mapsto> Hook ''on_key_press'' (ViewObj 1),
      cb_name (cls 2 ''on_key_press'') \<mapsto> cls 2 ''on_key_press'']"
  "handler_table (event_manager (windows (views_state cls) 0)) KEYUP =
     [''on_key_release'' \<mapsto> Hook ''on_key_release'' (ViewObj 1),
      cb_name (cls 2 ''on_key_release'') \<mapsto> cls 2 ''on_key_release'']"
  "handler_table (event_manager (windows (views_state cls) 0)) MOUSEMOTION =
     [''__on_mouse_motion'' \<mapsto> WindowDemux 0]"
  by (simp_all add: windows_views_state table_register_callers_at sample_views
        table_game_state_at)

lemma aliasing_leaves_stale_slot:
  "handler_table (event_manager (windows
      (snd (View_show default_hooks (plain_view 1 0)
        (snd (View_show default_hooks (aliasing_view 2 0)
          (snd (View_show default_hooks (plain_view 1 0) (views_state Aliasing_class))))))) 0))
     KEYUP ''on_key_press'' = Some (Hook ''on_key_press'' (ViewObj 2))"
  "handler_table (event_manager (windows
      (snd (View_show default_hooks (plain_view 1 0)
        (snd (View_show default_hooks (aliasing_view 2 0)
          (snd (View_show default_hooks (plain_view 1 0) (views_state Aliasing_class))))))) 0))
     KEYUP ''on_key_release'' = Some (Hook ''on_key_release'' (ViewObj 1))"
  by (simp_all add: View_show_default table_register_callers_at sample_views
        table_views_state_at Aliasing_class_def View_class_def)

lemma registering_hooks_states:
  "i \<noteq> 2 \<Longrightarrow>
   snd (View_show registering_hooks (plain_view i 0) s) = View_register_callers (plain_view i 0) s"
  "snd (View_show registering_hooks (plain_view 2 0) s) =
     update_window 0 (\<lambda>win. win\<lparr>event_manager :=
         add_event_handler KEYDOWN (Hook ''on_extra_key'' (ViewObj 2)) (event_manager win)\<rparr>)
       (View_register_callers (plain_view 2 0) s)"
  by (simp_all add: View_show_state registering_hooks_def sample_views returns_def modify_def)

lemma table_update_window_em:
  "handler_table (event_manager (windows (update_window w (\<lambda>win. win\<lparr>event_manager := f (event_manager win)\<rparr>) s) w)) =
     handler_table (f (event_manager (windows s w)))"
  by (simp add: update_window_def)

lemma setup_leaves_stale_slot:
  "handler_table (event_manager (windows
      (snd (View_show registering_hooks (plain_view 1 0)
        (snd (View_show registering_hooks (plain_view 2 0)
          (snd (View_show registering_hooks (plain_view 1 0) (views_state View_class))))))) 0))
     KEYDOWN ''on_extra_key'' = Some (Hook ''on_extra_key'' (ViewObj 2))"
  "handler_table (event_manager (windows
      (snd (View_show registering_hooks (plain_view 1 0) (views_state View_class))) 0))
     KEYDOWN ''on_extra_key'' = None"
  by (simp_all add: registering_hooks_states table_register_callers_at sample_views
        table_update_window_em handler_table_add table_views_state_at View_class_def)

text \<open>
  C1, as stated, fails in two ways, both seen after
  \<^verbatim>\<open>w = Window(800, 600, "game"); a = View(w); b = cls(w)\<close>. When \<open>cls\<close> is a class whose
  body has \<^verbatim>\<open>on_key_release = on_key_press\<close>, \<open>b\<close>'s key-release handler is filed under
  \<^verbatim>\<open>on_key_press\<close>, a \<^verbatim>\<open>KEYUP\<close> slot that \<open>a\<close> never writes: after \<^verbatim>\<open>a.show()\<close>,
  \<^verbatim>\<open>b.show()\<close>, \<^verbatim>\<open>a.show()\<close> it still holds \<open>b\<close>'s handler, beside \<open>a\<close>'s own. When \<open>cls\<close> is
  \<^verbatim>\<open>View\<close> and \<open>b\<close>'s \<^verbatim>\<open>setup()\<close> registers a handler of its own, that slot, absent after the
  first \<^verbatim>\<open>a.show()\<close>, is there after the three activations.
\<close>

theorem view_activation_round_trip_counterexample:
  "fst (View_init View_class 0 game_state) = plain_view 1 0 \<and>
   fst (View_init Aliasing_class 0 (snd (View_init View_class 0 game_state))) = aliasing_view 2 0 \<and>
   view_attr (aliasing_view 2 0) ''on_key_release'' = Hook ''on_key_press'' (ViewObj 2) \<and>
   handler_table (event_manager (windows
      (snd (View_show default_hooks (plain_view 1 0)
        (snd (View_show default_hooks (aliasing_view 2 0)
          (snd (View_show default_hooks (plain_view 1 0) (views_state Aliasing_class))))))) 0))
     KEYUP ''on_key_press'' = Some (Hook ''on_key_press'' (ViewObj 2)) \<and>
   handler_table (event_manager (windows
      (snd (View_show default_hooks (plain_view 1 0)
        (snd (View_show default_hooks (aliasing_view 2 0)
          (snd (View_show default_hooks (plain_view 1 0) (views_state Aliasing_class))))))) 0))
     KEYUP ''on_key_release'' = Some (Hook ''on_key_release'' (ViewObj 1)) \<and>
   fst (View_init View_class 0 (snd (View_init View_class 0 game_state))) = plain_view 2 0 \<and>
   handler_table (event_manager (windows
      (snd (View_show registering_hooks (plain_view 1 0)
        (snd (View_show registering_hooks (plain_view 2 0)
          (snd (View_show registering_hooks (plain_view 1 0) (views_state View_class))))))) 0))
     KEYDOWN ''on_extra_key'' = Some (Hook ''on_extra_key'' (ViewObj 2)) \<and>
   handler_table (event_manager (windows
      (snd (View_show registering_hooks (plain_view 1 0) (views_state View_class))) 0))
     KEYDOWN ''on_extra_key'' = None \<and>
   bindings (windows
      (snd (View_show registering_hooks (plain_view 1 0)
        (snd (View_show registering_hooks (plain_view 2 0)
          (snd (View_show registering_hooks (plain_view 1 0) (views_state View_class))))))) 0)
     \<noteq> bindings (windows
          (snd (View_show registering_hooks (plain_view 1 0) (views_state View_class))) 0)"
proof -
  have ne: "handler_table (event_manager a) t n \<noteq> handler_table (event_manager b) t n \<Longrightarrow>
            bindings a \<noteq> bindings b" for a b t n
    by (auto simp: bindings_eq_iff)
  have "bindings (windows
      (snd (View_show registering_hooks (plain_view 1 0)
        (snd (View_show registering_hooks (plain_view 2 0)
          (snd (View_show registering_hooks (plain_view 1 0) (views_state View_class))))))) 0)
     \<noteq> bindings (windows
          (snd (View_show registering_hooks (plain_view 1 0) (views_state View_class))) 0)"
    by (rule ne [where t = KEYDOWN and n = "''on_extra_key''"])
       (simp only: setup_leaves_stale_slot, simp)
  moreover have "view_attr (aliasing_view 2 0) ''on_key_release'' = Hook ''on_key_press'' (ViewObj 2)"
    by (simp add: sample_views)
  ultimately show ?thesis
    using aliasing_leaves_stale_slot setup_leaves_stale_slot first_view second_view_sample
    by blast
qed

lemma slots_retaken_active:
  "view_is_active A win \<Longrightarrow> same_handler_names A B \<Longrightarrow> slots_retaken B A win"
  by (simp add: view_is_active_def same_handler_names_def slots_retaken_def)

text \<open>
  C1, amended. Let views \<open>A\<close> and \<open>B\<close> refer to the same window \<open>w\<close>, file their handlers
  under the same names, and have \<^verbatim>\<open>setup()\<close> hooks that keep the bindings. After
  \<^verbatim>\<open>A.show()\<close>, \<^verbatim>\<open>B.show()\<close> and \<^verbatim>\<open>A.show()\<close> again, the handler attributes of \<open>w\<close> and the
  handler table of every event type are exactly what they were after the first
  \<^verbatim>\<open>A.show()\<close>; \<open>A\<close> is the active view, its callables in the nine attributes and the seven
  slots fed from them; and every slot that \<open>B\<close>'s activation filled with a callable of \<open>B\<close>
  holds \<open>A\<close>'s callable, so that no binding installed by \<open>B\<close> remains.
\<close>

theorem view_activation_round_trip:
  assumes "window A = w" and "window B = w"
    and "same_handler_names A B"
    and "setup_keeps_bindings user A" and "setup_keeps_bindings user B"
  shows "bindings (windows (snd (View_show user A (snd (View_show user B (snd (View_show user A s)))))) w)
           = bindings (windows (snd (View_show user A s)) w) \<and>
         view_is_active A
           (windows (snd (View_show user A (snd (View_show user B (snd (View_show user A s)))))) w) \<and>
         slots_retaken B A
           (windows (snd (View_show user A (snd (View_show user B (snd (View_show user A s)))))) w)"
proof -
  define s1 where "s1 = snd (View_show user A s)"
  define s2 where "s2 = snd (View_show user B s1)"
  define s3 where "s3 = snd (View_show user A s2)"
  have wB: "window B = window A" using assms by simp
  have b1: "bindings (windows s1 (window A)) = bindings (windows (View_register_callers A s) (window A))"
    unfolding s1_def by (rule bindings_View_show [OF assms(4)])
  have b2: "bindings (windows s2 (window A)) = bindings (windows (View_register_callers B s1) (window A))"
    unfolding s2_def using bindings_View_show [OF assms(5), of s1] by (simp add: wB)
  have b3: "bindings (windows s3 (window A)) = bindings (windows (View_register_callers A s2) (window A))"
    unfolding s3_def by (rule bindings_View_show [OF assms(4)])
  have "bindings (windows (View_register_callers A s2) (window A)) =
        bindings (windows (View_register_callers A (View_register_callers B s1)) (window A))"
    by (rule bindings_register_callers_cong [OF b2])
  also have "\<dots> = bindings (windows (View_register_callers A s1) (window A))"
    by (rule bindings_register_callers_twice [OF wB assms(3)])
  also have "\<dots> = bindings (windows (View_register_callers A (View_register_callers A s)) (window A))"
    by (rule bindings_register_callers_cong [OF b1])
  also have "\<dots> = bindings (windows (View_register_callers A s) (window A))"
    by (rule bindings_register_callers_twice [OF refl same_handler_names_refl])
  finally have eq: "bindings (windows s3 (window A)) = bindings (windows s1 (window A))"
    using b1 b3 by simp
  have act: "view_is_active A (windows s3 (window A))"
    using view_is_active_bindings [OF b3, of A] view_is_active_register_callers [of A s2] by simp
  from act have "slots_retaken B A (windows s3 (window A))"
    by (rule slots_retaken_active [OF _ assms(3)])
  with eq act show ?thesis
    using assms(1) by (simp add: s1_def s2_def s3_def)
qed

theorem view_activation_round_trip_witness:
  "on_key_press
     (windows (snd (View_show default_hooks (plain_view 1 0)
        (snd (View_show default_hooks (plain_view 2 0)
          (snd (View_show default_hooks (plain_view 1 0) (views_state View_class))))))) 0)
     = Hook ''on_key_press'' (ViewObj 1) \<and>
   handler_table (event_manager
     (windows (snd (View_show default_hooks (plain_view 1 0)
        (snd (View_show default_hooks (plain_view 2 0)
          (snd (View_show default_hooks (plain_view 1 0) (views_state View_class))))))) 0))
     KEYDOWN ''on_key_press'' = Some (Hook ''on_key_press'' (ViewObj 1))"
  using view_activation_round_trip
    [where A = "plain_view 1 0" and B = "plain_view 2 0" and w = 0 and user = default_hooks
       and s = "views_state View_class",
     OF _ _ plain_views_same_names default_hooks_keep_bindings default_hooks_keep_bindings]
  by (simp add: view_is_active_def sample_views)

text \<open>
  C4, as stated, fails: constructing a view on the sample window changes the window's
  bound callbacks, and the \<^verbatim>\<open>KEYDOWN\<close> slot \<^verbatim>\<open>on_key_press\<close> passes from the window's
  own method to the new view's.
\<close>

theorem view_construction_rebinds_counterexample:
  "bound_callbacks (windows (snd (View_init View_class 0 game_state)) 0)
     \<noteq> bound_callbacks (windows game_state 0) \<and>
   handler_table (event_manager (windows (snd (View_init View_class 0 game_state)) 0))
     KEYDOWN ''on_key_press'' = Some (Hook ''on_key_press'' (ViewObj 1)) \<and>
   handler_table (event_manager (windows game_state 0))
     KEYDOWN ''on_key_press'' = Some (Hook ''on_key_press'' (WindowObj 0))"
proof -
  have v: "fst (View_init View_class 0 game_state) = plain_view 1 0"
    by (simp add: View_init_def Let_def game_state_fields plain_view_def)
  have "handler_table (event_manager (windows game_state 0)) KEYDOWN ''on_key_press'' =
          Some (Hook ''on_key_press'' (WindowObj 0))"
    by (simp add: table_game_state_at)
  moreover have "handler_table (event_manager (windows (snd (View_init View_class 0 game_state)) 0))
     KEYDOWN ''on_key_press'' = Some (Hook ''on_key_press'' (ViewObj 1))"
    using view_is_active_register_callers [of "plain_view 1 0" game_state]
    by (simp add: View_init_result v view_is_active_def sample_views)
  moreover have "bound_callbacks (windows (snd (View_init View_class 0 game_state)) 0)
     \<noteq> bound_callbacks (windows game_state 0)"
    using bound_callbacks_register_callers [of "plain_view 1 0" game_state]
    by (simp add: View_init_result v sample_views)
       (simp add: bound_callbacks_def windows_game_state new_window_def)
  ultimately show ?thesis by simp
qed

text \<open>
  C4, amended. Constructing \<^verbatim>\<open>View(w)\<close>, for \<^verbatim>\<open>View\<close> or any subclass, binds the view to
  \<open>w\<close> and installs its handlers as \<^verbatim>\<open>show()\<close> does, short of calling \<^verbatim>\<open>setup()\<close>: the new
  view is the active view of \<open>w\<close>, the window's bindings are those \<^verbatim>\<open>__register_callers\<close>
  produces, the attributes \<^verbatim>\<open>on_mouse_motion\<close>, \<^verbatim>\<open>on_mouse_drag\<close>, \<^verbatim>\<open>on_resize\<close>,
  \<^verbatim>\<open>on_focus\<close> and \<^verbatim>\<open>on_blur\<close> keep their values, and every other window is untouched.
\<close>

theorem view_construction_installs_handlers:
  "window (fst (View_init cls w s)) = w \<and>
   view_is_active (fst (View_init cls w s)) (windows (snd (View_init cls w s)) w) \<and>
   bindings (windows (snd (View_init cls w s)) w) =
     bindings (windows (View_register_callers (fst (View_init cls w s)) s) w) \<and>
   on_mouse_motion (windows (snd (View_init cls w s)) w) = on_mouse_motion (windows s w) \<and>
   on_mouse_drag (windows (snd (View_init cls w s)) w) = on_mouse_drag (windows s w) \<and>
   on_resize (windows (snd (View_init cls w s)) w) = on_resize (windows s w) \<and>
   on_focus (windows (snd (View_init cls w s)) w) = on_focus (windows s w) \<and>
   on_blur (windows (snd (View_init cls w s)) w) = on_blur (windows s w) \<and>
   (\<forall>w'. w' \<noteq> w \<longrightarrow> windows (snd (View_init cls w s)) w' = windows s w')"
proof -
  define v where "v = fst (View_init cls w s)"
  have w: "window v = w" by (simp add: v_def View_init_result)
  have ws: "windows (snd (View_init cls w s)) = windows (View_register_callers v s)"
    by (simp add: v_def View_init_result)
  have "view_is_active v (windows (View_register_callers v s) w)"
    using view_is_active_register_callers [of v s] by (simp add: w)
  moreover have "\<forall>w'. w' \<noteq> w \<longrightarrow> windows (View_register_callers v s) w' = windows s w'"
    using register_callers_other [of _ v s] by (simp add: w)
  ultimately show ?thesis
    using unrebound_register_callers [of v s] w
    unfolding v_def [symmetric] ws by simp
qed

theorem view_construction_installs_handlers_witness:
  "on_key_press (windows (snd (View_init View_class 0 game_state)) 0) =
     Hook ''on_key_press'' (ViewObj 1) \<and>
   handler_table (event_manager (windows (snd (View_init View_class 0 game_state)) 0))
     KEYDOWN ''on_key_press'' = Some (Hook ''on_key_press'' (ViewObj 1)) \<and>
   on_mouse_motion (windows (snd (View_init View_class 0 game_state)) 0) =
     Hook ''on_mouse_motion'' (WindowObj 0) \<and>
   windows (snd (View_init View_class 0 game_state)) 1 = windows game_state 1"
proof -
  have v: "fst (View_init View_class 0 game_state) = plain_view 1 0"
    by (simp add: View_init_def Let_def game_state_fields plain_view_def)
  show ?thesis
    using view_construction_installs_handlers [of View_class 0 game_state]
    by (simp add: v view_is_active_def sample_views windows_game_state new_window_hooks)
qed

section \<open>Mouse motion\<close>

lemma dispatch_single:
  "dispatch user ev [cb] s =
     (case event_mapping s ev of Inl e \<Rightarrow> raise e s | Inr args \<Rightarrow> invoke user cb args s)"
proof (cases "event_mapping s ev")
  case (Inl e)
  then show ?thesis by simp
next
  case (Inr args)
  obtain r s' where inv: "invoke user cb args s = (r, s')" by (cases "invoke user cb args s")
  show ?thesis
    using Inr inv by (cases r) (simp_all add: returns_def)
qed

lemma handle_each_single:
  "handle_each user w [ev] s =
     dispatch user ev (map snd (slots (event_manager (windows s w)) (etype ev))) s"
proof -
  obtain r s' where d: "dispatch user ev (map snd (slots (event_manager (windows s w)) (etype ev))) s = (r, s')"
    by (cases "dispatch user ev (map snd (slots (event_manager (windows s w)) (etype ev))) s")
  show ?thesis
    using d by (cases r) (simp_all add: returns_def)
qed

lemma event_mapping_motion:
  assumes "etype e = MOUSEMOTION"
    and "event_attr e ''pos'' = Inr (VTuple [x, y])"
    and "event_attr e ''rel'' = Inr (VTuple [dx, dy])"
    and "event_attr e ''buttons'' = Inr buttons"
  shows "event_mapping s e = Inr [x, y, dx, dy, buttons, VInt (key_mods s)]"
  using assms by (simp add: event_mapping_def Let_def and_then_def event_consts)

text \<open>
  C3. A mouse motion event with position \<open>(x, y)\<close>, relative motion \<open>(dx, dy)\<close> and button
  state \<open>buttons\<close> is turned into the arguments \<open>x, y, dx, dy, buttons, modifiers\<close>, and the
  window's demultiplexer makes exactly one call with them: \<^verbatim>\<open>on_mouse_motion(x, y, dx, dy,
  modifiers)\<close> when \<open>buttons\<close> is \<^verbatim>\<open>(0, 0, 0)\<close>, and
  \<^verbatim>\<open>on_mouse_drag(x, y, dx, dy, buttons, modifiers)\<close> for any other value. Dispatching a
  queue that holds this one event, in a window whose motion slot is the demultiplexer, is
  that single call.
\<close>

theorem motion_event_routing:
  assumes "etype e = MOUSEMOTION"
    and "event_attr e ''pos'' = Inr (VTuple [x, y])"
    and "event_attr e ''rel'' = Inr (VTuple [dx, dy])"
    and "event_attr e ''buttons'' = Inr buttons"
  shows "event_mapping s e = Inr [x, y, dx, dy, buttons, VInt (key_mods s)] \<and>
         dispatch user e [WindowDemux w] s =
           (if buttons = no_buttons
            then user (on_mouse_motion (windows s w)) [x, y, dx, dy, VInt (key_mods s)] s
            else user (on_mouse_drag (windows s w)) [x, y, dx, dy, buttons, VInt (key_mods s)] s) \<and>
         (slots (event_manager (windows s w)) MOUSEMOTION = [(''__on_mouse_motion'', WindowDemux w)]
            \<and> queue s = [e] \<longrightarrow>
          handle_events user w s =
           (if buttons = no_buttons
            then user (on_mouse_motion (windows s w)) [x, y, dx, dy, VInt (key_mods s)]
                   (s\<lparr>queue := []\<rparr>)
            else user (on_mouse_drag (windows s w)) [x, y, dx, dy, buttons, VInt (key_mods s)]
                   (s\<lparr>queue := []\<rparr>)))"
proof -
  have d: "dispatch user e [WindowDemux w] s' =
           (if buttons = no_buttons
            then user (on_mouse_motion (windows s' w)) [x, y, dx, dy, VInt (key_mods s')] s'
            else user (on_mouse_drag (windows s' w)) [x, y, dx, dy, buttons, VInt (key_mods s')] s')"
    for s'
    by (simp add: dispatch_single event_mapping_motion [OF assms] del: dispatch.simps)
  have "handle_events user w s =
           (if buttons = no_buttons
            then user (on_mouse_motion (windows s w)) [x, y, dx, dy, VInt (key_mods s)]
                   (s\<lparr>queue := []\<rparr>)
            else user (on_mouse_drag (windows s w)) [x, y, dx, dy, buttons, VInt (key_mods s)]
                   (s\<lparr>queue := []\<rparr>))"
    if "slots (event_manager (windows s w)) MOUSEMOTION = [(''__on_mouse_motion'', WindowDemux w)]"
      and "queue s = [e]"
    using that assms(1)
    by (simp add: handle_events_def handle_each_single d del: dispatch.simps handle_each.simps)
  with d [of s] event_mapping_motion [OF assms] show ?thesis by simp
qed

theorem motion_event_routing_witness:
  "handle_events titled_hooks 0 (game_state\<lparr>queue := [motion_event (VTuple [VInt 0, VInt 0, VInt 0])]\<rparr>)
     = (Inr (), game_state\<lparr>queue := [], caption := VStr ''on_mouse_motion''\<rparr>) \<and>
   handle_events titled_hooks 0 (game_state\<lparr>queue := [motion_event (VTuple [VInt 1, VInt 0, VInt 0])]\<rparr>)
     = (Inr (), game_state\<lparr>queue := [], caption := VStr ''on_mouse_drag''\<rparr>)"
proof -
  have a: "etype (motion_event b) = MOUSEMOTION"
    "event_attr (motion_event b) ''pos'' = Inr (VTuple [VInt 10, VInt 20])"
    "event_attr (motion_event b) ''rel'' = Inr (VTuple [VInt 1, VInt 2])"
    "event_attr (motion_event b) ''buttons'' = Inr b" for b
    by (simp_all add: motion_event_def event_attr_def)
  have pre: "slots (event_manager (windows (game_state\<lparr>queue := [motion_event b]\<rparr>) 0)) MOUSEMOTION =
             [(''__on_mouse_motion'', WindowDemux 0)] \<and>
           queue (game_state\<lparr>queue := [motion_event b]\<rparr>) = [motion_event b]" for b
    using slots_game_state by simp
  have run: "handle_events titled_hooks 0 (game_state\<lparr>queue := [motion_event b]\<rparr>) =
           (if b = no_buttons
            then titled_hooks (on_mouse_motion (windows (game_state\<lparr>queue := [motion_event b]\<rparr>) 0))
                   [VInt 10, VInt 20, VInt 1, VInt 2,
                    VInt (key_mods (game_state\<lparr>queue := [motion_event b]\<rparr>))]
                   (game_state\<lparr>queue := [motion_event b], queue := []\<rparr>)
            else titled_hooks (on_mouse_drag (windows (game_state\<lparr>queue := [motion_event b]\<rparr>) 0))
                   [VInt 10, VInt 20, VInt 1, VInt 2, b,
                    VInt (key_mods (game_state\<lparr>queue := [motion_event b]\<rparr>))]
                   (game_state\<lparr>queue := [motion_event b], queue := []\<rparr>))" for b
    using motion_event_routing
            [where e = "motion_event b" and s = "game_state\<lparr>queue := [motion_event b]\<rparr>"
               and user = titled_hooks and w = 0, OF a] pre [of b]
    by blast
  show ?thesis
    by (simp add: run no_buttons_def windows_game_state new_window_hooks titled_hooks_def
          modify_def)
qed

section \<open>Mouse motion and view activation\<close>

lemma handle_events_motion:
  assumes "etype e = MOUSEMOTION"
    and "event_attr e ''pos'' = Inr (VTuple [x, y])"
    and "event_attr e ''rel'' = Inr (VTuple [dx, dy])"
    and "event_attr e ''buttons'' = Inr buttons"
    and "slots (event_manager (windows s w)) MOUSEMOTION = [(''__on_mouse_motion'', WindowDemux w)]"
    and "queue s = [e]"
  shows "handle_events user w s =
           (if buttons = no_buttons
            then user (on_mouse_motion (windows s w)) [x, y, dx, dy, VInt (key_mods s)]
                   (s\<lparr>queue := []\<rparr>)
            else user (on_mouse_drag (windows s w)) [x, y, dx, dy, buttons, VInt (key_mods s)]
                   (s\<lparr>queue := []\<rparr>))"
  using assms(1,5,6)
  by (simp add: handle_events_def handle_each_single dispatch_single
        event_mapping_motion [OF assms(1-4)] del: dispatch.simps handle_each.simps)

lemma game_state_hooks:
  "on_mouse_motion (windows game_state 0) = Hook ''on_mouse_motion'' (WindowObj 0)"
  "on_mouse_drag (windows game_state 0) = Hook ''on_mouse_drag'' (WindowObj 0)"
  by (simp_all add: windows_game_state new_window_hooks)

lemma rebinding_hooks_state:
  "snd (View_show rebinding_hooks (plain_view 1 0) s) =
     update_window 0 (\<lambda>win. win\<lparr>on_mouse_motion := Hook ''on_mouse_motion'' (ViewObj 1)\<rparr>)
       (View_register_callers (plain_view 1 0) s)"
  by (simp add: View_show_state rebinding_hooks_def sample_views modify_def)

lemma constructed_view_window:
  "windows (snd (View_init View_class 0 game_state)) =
     windows (View_register_callers (plain_view 1 0) game_state)"
  using View_init_result(4) [of View_class 0 game_state] by (simp only: first_view)

lemma constructed_view_state:
  "on_mouse_motion (windows (snd (View_init View_class 0 game_state)) 0) =
     Hook ''on_mouse_motion'' (WindowObj 0)"
  "slots (event_manager (windows (snd (View_init View_class 0 game_state)) 0)) MOUSEMOTION =
     [(''__on_mouse_motion'', WindowDemux 0)]"
  using register_callers_window [of "plain_view 1 0" game_state]
  by (simp_all add: constructed_view_window sample_views slots_register_events_motion rebound_def
        slots_game_state game_state_hooks)

text \<open>
  C9, as stated, fails: \<^verbatim>\<open>show()\<close> calls \<^verbatim>\<open>setup()\<close>, and a \<^verbatim>\<open>setup()\<close> that does
  \<^verbatim>\<open>self.window.on_mouse_motion = self.on_mouse_motion\<close> rebinds the attribute during the
  activation. After \<^verbatim>\<open>w = Window(800, 600, "game"); v = View(w)\<close> the attribute is the
  window's own method; after \<^verbatim>\<open>v.show()\<close> it is the view's override, and a mouse motion
  with no button held is dispatched to it.
\<close>

theorem view_activation_rebinds_motion_counterexample:
  "fst (View_init View_class 0 game_state) = plain_view 1 0 \<and>
   on_mouse_motion (windows (snd (View_init View_class 0 game_state)) 0) =
     Hook ''on_mouse_motion'' (WindowObj 0) \<and>
   on_mouse_motion (windows (snd (View_show rebinding_hooks (plain_view 1 0)
       (snd (View_init View_class 0 game_state)))) 0) =
     view_attr (plain_view 1 0) ''on_mouse_motion'' \<and>
   on_mouse_motion (windows (snd (View_show rebinding_hooks (plain_view 1 0)
       (snd (View_init View_class 0 game_state)))) 0) \<noteq>
     on_mouse_motion (windows (snd (View_init View_class 0 game_state)) 0) \<and>
   handle_events rebinding_hooks 0
       ((snd (View_show rebinding_hooks (plain_view 1 0) (snd (View_init View_class 0 game_state))))
          \<lparr>queue := [motion_event no_buttons]\<rparr>) =
     (Inr (), (snd (View_show rebinding_hooks (plain_view 1 0)
                 (snd (View_init View_class 0 game_state))))
                \<lparr>queue := [], caption := VStr ''view 1 moved''\<rparr>)"
proof -
  let ?s = "snd (View_init View_class 0 game_state)"
  let ?s' = "snd (View_show rebinding_hooks (plain_view 1 0) ?s)"
  have a: "on_mouse_motion (windows ?s' 0) = Hook ''on_mouse_motion'' (ViewObj 1)"
    by (simp only: rebinding_hooks_state) (simp add: update_window_def)
  have b: "on_mouse_motion (windows ?s 0) = Hook ''on_mouse_motion'' (WindowObj 0)"
    by (rule constructed_view_state)
  have c: "view_attr (plain_view 1 0) ''on_mouse_motion'' = Hook ''on_mouse_motion'' (ViewObj 1)"
    by (simp add: sample_views)
  have sl: "slots (event_manager (windows ?s' 0)) MOUSEMOTION =
              [(''__on_mouse_motion'', WindowDemux 0)]"
    using register_callers_window [of "plain_view 1 0" ?s]
    by (simp only: rebinding_hooks_state)
       (simp add: update_window_def sample_views slots_register_events_motion rebound_def
          constructed_view_state)
  have "handle_events rebinding_hooks 0 (?s'\<lparr>queue := [motion_event no_buttons]\<rparr>) =
          rebinding_hooks (on_mouse_motion (windows ?s' 0))
            [VInt 10, VInt 20, VInt 1, VInt 2, VInt (key_mods ?s')] (?s'\<lparr>queue := []\<rparr>)"
    using handle_events_motion
      [where e = "motion_event no_buttons" and x = "VInt 10" and y = "VInt 20" and dx = "VInt 1"
         and dy = "VInt 2" and buttons = no_buttons and w = 0 and user = rebinding_hooks
         and s = "?s'\<lparr>queue := [motion_event no_buttons]\<rparr>"] sl
    by (simp add: motion_event_def event_attr_def)
  then have "handle_events rebinding_hooks 0 (?s'\<lparr>queue := [motion_event no_buttons]\<rparr>) =
          (Inr (), ?s'\<lparr>queue := [], caption := VStr ''view 1 moved''\<rparr>)"
    by (simp only: a) (simp add: rebinding_hooks_def modify_def)
  with a b c first_view show ?thesis by simp
qed

lemma ran_upd_cases: "c \<in> ran (m(k \<mapsto> v)) \<Longrightarrow> c = v \<or> c \<in> ran m"
  by (auto simp: ran_def split: if_splits)

text \<open>
  C9, amended. Activating a view whose \<^verbatim>\<open>setup()\<close> keeps the bindings does not rebind the
  window's \<^verbatim>\<open>on_mouse_motion\<close> and \<^verbatim>\<open>on_mouse_drag\<close>. The registration that \<^verbatim>\<open>show()\<close>
  makes for mouse motion writes one slot, the window's private demultiplexer: the table of
  mouse motion afterwards is the table before with that slot set, so a callable that was not
  registered for mouse motion before is not registered after, the view's overrides
  included. A call of the demultiplexer after the activation goes to the callable the two
  attributes held before it; where these were not the view's overrides before, they are
  not after.
\<close>

theorem view_activation_keeps_motion_hooks:
  assumes "setup_keeps_bindings user v"
  shows
    "on_mouse_motion (windows (snd (View_show user v s)) (window v)) =
       on_mouse_motion (windows s (window v)) \<and>
     on_mouse_drag (windows (snd (View_show user v s)) (window v)) =
       on_mouse_drag (windows s (window v)) \<and>
     handler_table (event_manager (windows (snd (View_show user v s)) (window v))) MOUSEMOTION =
       (handler_table (event_manager (windows s (window v))) MOUSEMOTION)
         (''__on_mouse_motion'' \<mapsto> WindowDemux (window v)) \<and>
     slots (event_manager (windows (View_register_callers v s) (window v))) MOUSEMOTION =
       AList.update ''__on_mouse_motion'' (WindowDemux (window v))
         (slots (event_manager (windows s (window v))) MOUSEMOTION) \<and>
     (c \<noteq> WindowDemux (window v) \<and>
      c \<notin> ran (handler_table (event_manager (windows s (window v))) MOUSEMOTION) \<longrightarrow>
        c \<notin> ran (handler_table (event_manager (windows (snd (View_show user v s)) (window v)))
                   MOUSEMOTION)) \<and>
     invoke user (WindowDemux (window v)) [x, y, dx, dy, buttons, modifiers]
         (snd (View_show user v s)) =
       (if buttons = no_buttons
        then user (on_mouse_motion (windows s (window v))) [x, y, dx, dy, modifiers]
               (snd (View_show user v s))
        else user (on_mouse_drag (windows s (window v))) [x, y, dx, dy, buttons, modifiers]
               (snd (View_show user v s))) \<and>
     (on_mouse_motion (windows s (window v)) \<noteq> view_attr v ''on_mouse_motion'' \<longrightarrow>
        on_mouse_motion (windows (snd (View_show user v s)) (window v))
          \<noteq> view_attr v ''on_mouse_motion'') \<and>
     (on_mouse_drag (windows s (window v)) \<noteq> view_attr v ''on_mouse_drag'' \<longrightarrow>
        on_mouse_drag (windows (snd (View_show user v s)) (window v))
          \<noteq> view_attr v ''on_mouse_drag'')"
proof -
  let ?s' = "snd (View_show user v s)"
  let ?w = "window v"
  have b: "bindings (windows ?s' ?w) = bindings (windows (View_register_callers v s) ?w)"
    by (rule bindings_View_show [OF assms])
  then have "bound_callbacks (windows ?s' ?w) = bound_callbacks (windows (View_register_callers v s) ?w)"
    by (simp add: bindings_eq_iff)
  then have m: "on_mouse_motion (windows ?s' ?w) = on_mouse_motion (windows s ?w)"
    and d: "on_mouse_drag (windows ?s' ?w) = on_mouse_drag (windows s ?w)"
    by (simp_all add: bound_callbacks_def unrebound_register_callers)
  from b have "handler_table (event_manager (windows ?s' ?w)) =
               handler_table (event_manager (windows (View_register_callers v s) ?w))"
    by (simp add: bindings_eq_iff)
  then have t: "handler_table (event_manager (windows ?s' ?w)) MOUSEMOTION =
                (handler_table (event_manager (windows s ?w)) MOUSEMOTION)
                  (''__on_mouse_motion'' \<mapsto> WindowDemux ?w)"
    by (simp add: table_register_callers_at)
  have sl: "slots (event_manager (windows (View_register_callers v s) ?w)) MOUSEMOTION =
       AList.update ''__on_mouse_motion'' (WindowDemux ?w)
         (slots (event_manager (windows s ?w)) MOUSEMOTION)"
    by (simp add: register_callers_window slots_register_events_motion)
       (simp add: rebound_def)
  have r: "c \<noteq> WindowDemux ?w \<and>
           c \<notin> ran (handler_table (event_manager (windows s ?w)) MOUSEMOTION) \<longrightarrow>
           c \<notin> ran (handler_table (event_manager (windows ?s' ?w)) MOUSEMOTION)"
    unfolding t using ran_upd_cases by fastforce
  have i: "invoke user (WindowDemux ?w) [x, y, dx, dy, buttons, modifiers] ?s' =
       (if buttons = no_buttons
        then user (on_mouse_motion (windows s ?w)) [x, y, dx, dy, modifiers] ?s'
        else user (on_mouse_drag (windows s ?w)) [x, y, dx, dy, buttons, modifiers] ?s')"
    by (simp add: m d)
  from m d t sl r i show ?thesis by simp
qed

theorem view_activation_keeps_motion_hooks_witness:
  "on_mouse_motion (windows (snd (View_show default_hooks (plain_view 1 0) game_state)) 0)
     = Hook ''on_mouse_motion'' (WindowObj 0) \<and>
   on_mouse_drag (windows (snd (View_show default_hooks (plain_view 1 0) game_state)) 0)
     = Hook ''on_mouse_drag'' (WindowObj 0) \<and>
   handler_table (event_manager
       (windows (snd (View_show default_hooks (plain_view 1 0) game_state)) 0)) MOUSEMOTION
     = [''__on_mouse_motion'' \<mapsto> WindowDemux 0] \<and>
   Hook ''on_mouse_motion'' (ViewObj 1) \<notin> ran (handler_table (event_manager
       (windows (snd (View_show default_hooks (plain_view 1 0) game_state)) 0)) MOUSEMOTION)"
proof -
  have pre: "Hook ''on_mouse_motion'' (ViewObj 1) \<noteq> WindowDemux (window (plain_view 1 0)) \<and>
    Hook ''on_mouse_motion'' (ViewObj 1) \<notin>
      ran (handler_table (event_manager (windows game_state (window (plain_view 1 0)))) MOUSEMOTION)"
    by (simp add: sample_views table_game_state_at)
  from view_activation_keeps_motion_hooks
    [OF default_hooks_keep_bindings, where v = "plain_view 1 0" and s = game_state
       and c = "Hook ''on_mouse_motion'' (ViewObj 1)"] pre
  have "on_mouse_motion (windows (snd (View_show default_hooks (plain_view 1 0) game_state))
          (window (plain_view 1 0))) = on_mouse_motion (windows game_state (window (plain_view 1 0)))"
    and "on_mouse_drag (windows (snd (View_show default_hooks (plain_view 1 0) game_state))
          (window (plain_view 1 0))) = on_mouse_drag (windows game_state (window (plain_view 1 0)))"
    and "handler_table (event_manager (windows (snd (View_show default_hooks (plain_view 1 0) game_state))
          (window (plain_view 1 0)))) MOUSEMOTION =
       (handler_table (event_manager (windows game_state (window (plain_view 1 0)))) MOUSEMOTION)
         (''__on_mouse_motion'' \<mapsto> WindowDemux (window (plain_view 1 0)))"
    and "Hook ''on_mouse_motion'' (ViewObj 1) \<notin> ran (handler_table (event_manager
          (windows (snd (View_show default_hooks (plain_view 1 0) game_state))
             (window (plain_view 1 0)))) MOUSEMOTION)"
    by blast+
  then show ?thesis
    by (simp add: sample_views table_game_state_at game_state_hooks)
qed

section \<open>The active window\<close>

text \<open>
  C6. Before any window is constructed \<^verbatim>\<open>get_window()\<close> fails with the \<open>NotActive\<close>
  error, as it does whenever the global holds no window; after \<^verbatim>\<open>Window(...)\<close> it returns
  the object just constructed.
\<close>

theorem get_window_before_and_after_construction:
  "get_window initial_state = (Inl NotActive, initial_state) \<and>
   (window_global s = None \<longrightarrow> get_window s = (Inl NotActive, s)) \<and>
   get_window (snd (Window_init wd ht title s)) =
     (Inr (fst (Window_init wd ht title s)), snd (Window_init wd ht title s))"
  by (simp add: get_window_def raise_def returns_def initial_state_def Window_init_result)

theorem get_window_before_and_after_construction_witness:
  "window_global initial_state = None \<and>
   get_window initial_state = (Inl (RuntimeError ''No window is active.''), initial_state) \<and>
   fst (get_window (snd (Window_init 800 600 (VStr ''game'') initial_state))) = Inr 0"
  using get_window_before_and_after_construction [of initial_state 800 600 "VStr ''game''"]
  by (simp add: Window_init_result NotActive_def initial_state_def)

lemma Window_close_eq:
  "Window_close w s =
     (Inl SystemExit, (update_window w (\<lambda>win. win\<lparr>ctx_active := False\<rparr>) s)\<lparr>pygame_running := False\<rparr>)"
  by (simp add: Window_close_def exit_def raise_def)

lemma close_window_eq:
  "close_window s =
     (case window_global s of None \<Rightarrow> (Inl NotActive, s) | Some w \<Rightarrow> Window_close w s)"
  by (simp add: close_window_def then_do_def get_window_def raise_def returns_def Window_close_eq
        split: option.splits)

text \<open>
  C10. \<^verbatim>\<open>Window.close()\<close> never returns: it clears the run flag, shuts pygame down and
  raises \<^verbatim>\<open>SystemExit\<close>, so whatever is sequenced after it does not run. In particular
  \<^verbatim>\<open>close_window()\<close> with an active window is just that \<^verbatim>\<open>close()\<close>, and the global
  still holds the window afterwards.
\<close>

theorem close_never_returns:
  "fst (Window_close w s) = Inl SystemExit \<and>
   \<not> ctx_active (windows (snd (Window_close w s)) w) \<and>
   \<not> pygame_running (snd (Window_close w s)) \<and>
   then_do (Window_close w) k s = (Inl SystemExit, snd (Window_close w s)) \<and>
   (window_global s = Some w \<longrightarrow>
      close_window s = Window_close w s \<and>
      window_global (snd (close_window s)) = Some w)"
  by (simp add: Window_close_eq close_window_eq then_do_def update_window_def)

theorem close_never_returns_witness:
  "window_global game_state = Some 0 \<and>
   close_window game_state =
     (Inl SystemExit,
      (update_window 0 (\<lambda>win. win\<lparr>ctx_active := False\<rparr>) game_state)\<lparr>pygame_running := False\<rparr>) \<and>
   window_global (snd (close_window game_state)) = Some 0"
  using close_never_returns [of 0 game_state "\<lambda>_. returns ()"]
  by (simp add: game_state_fields Window_close_eq update_window_def)

text \<open>
  C8. On the sample window \<^verbatim>\<open>close_window()\<close> shuts pygame down and raises
  \<^verbatim>\<open>SystemExit\<close>, but the active-window reference is not cleared: a later
  \<^verbatim>\<open>get_window()\<close> returns the closed window instead of failing.
\<close>

theorem close_window_keeps_active_window:
  "fst (close_window game_state) = Inl SystemExit \<and>
   \<not> pygame_running (snd (close_window game_state)) \<and>
   window_global (snd (close_window game_state)) = Some 0 \<and>
   get_window (snd (close_window game_state)) = (Inr 0, snd (close_window game_state))"
  by (simp add: close_window_eq game_state_fields Window_close_eq get_window_def returns_def
        update_window_def)

section \<open>Timers\<close>

lemma passes_frame:
  "timers (pygame_time_passes n s) = timers s"
  "clock (pygame_time_passes n s) = clock s + int n"
  by (induction n) (simp_all add: pygame_tick_def)

lemma queue_tick:
  "queue (pygame_tick s) =
     queue s @ concat (map (timer_due (timers s) (clock s + 1)) (remdups (map fst (timers s))))"
  by (simp add: pygame_tick_def)

lemma queue_passes_length: "length (queue s) \<le> length (queue (pygame_time_passes n s))"
  by (induction n) (simp_all add: queue_tick)

lemma timer_due_etype: "e \<in> set (timer_due tm now k) \<Longrightarrow> etype e = k"
  by (auto simp: timer_due_def split: option.splits if_splits)

lemma timer_due_absent: "k \<notin> fst ` set tm \<Longrightarrow> timer_due tm now k = []"
  by (cases "map_of tm k") (force simp: timer_due_def dest: map_of_SomeD)+

lemma filter_timer_due:
  "filter (\<lambda>e. etype e = t) (timer_due tm now k) = (if k = t then timer_due tm now k else [])"
  by (auto simp: filter_empty_conv filter_id_conv dest: timer_due_etype)

lemma filter_due_keys:
  "distinct ks \<Longrightarrow>
   filter (\<lambda>e. etype e = t) (concat (map (timer_due tm now) ks)) =
     (if t \<in> set ks then timer_due tm now t else [])"
  by (induction ks) (auto simp: filter_timer_due)

lemma filter_tick_posts:
  "filter (\<lambda>e. etype e = t) (concat (map (timer_due tm now) (remdups (map fst tm)))) =
     timer_due tm now t"
  using filter_due_keys [of "remdups (map fst tm)" t tm now] timer_due_absent [of t tm now]
  by (simp split: if_splits)

lemma posted_since_Suc:
  "posted_since s (pygame_time_passes (Suc n) s) t =
     posted_since s (pygame_time_passes n s) t @ timer_due (timers s) (clock s + int (Suc n)) t"
  using queue_passes_length [of s n]
  by (simp add: posted_since_def queue_tick passes_frame filter_tick_posts add.commute
        add.left_commute)

lemma int_mod_nat: "0 < ms \<Longrightarrow> int k mod ms = 0 \<longleftrightarrow> k mod nat ms = 0"
  using zmod_int [of k "nat ms"] by auto

lemma timer_due_scheduled:
  assumes "map_of tm t = Some (a, ms, st)" and "0 < ms"
  shows "timer_due tm (st + int (Suc n)) t =
           (if Suc n mod nat ms = 0 then [\<lparr>etype = t, attrs = a\<rparr>] else [])"
  using assms int_mod_nat [OF assms(2), of "Suc n"] by (simp add: timer_due_def)

lemma posted_by_timer:
  assumes "map_of (timers s) t = Some (a, ms, clock s)" and "0 < ms"
  shows "posted_since s (pygame_time_passes n s) t =
           replicate (n div nat ms) \<lparr>etype = t, attrs = a\<rparr>"
proof (induction n)
  case 0
  then show ?case by (simp add: posted_since_def)
next
  case (Suc n)
  show ?case
    by (simp only: posted_since_Suc Suc.IH timer_due_scheduled [OF assms] div_Suc)
       (simp add: replicate_append_same)
qed

lemma posted_without_timer:
  assumes "map_of (timers s) t = None"
  shows "posted_since s (pygame_time_passes n s) t = []"
proof (induction n)
  case 0
  then show ?case by (simp add: posted_since_def)
next
  case (Suc n)
  show ?case
    using assms by (simp only: posted_since_Suc Suc.IH) (simp add: timer_due_def)
qed

lemma set_timer_positive:
  assumes "0 < ms" and "ms < 2 ^ 31"
  shows "pygame_time_set_timer ev ms s =
           (Inr (), s\<lparr>timers := AList.update (etype ev) (attrs ev, ms, clock s) (timers s)\<rparr>)"
  using assms by (simp add: pygame_time_set_timer_def returns_def)

lemma set_timer_zero:
  "pygame_time_set_timer ev 0 s = (Inr (), s\<lparr>timers := AList.delete (etype ev) (timers s)\<rparr>)"
  by (simp add: pygame_time_set_timer_def returns_def)

lemma schedule_installs:
  assumes "0 < ms" and "ms < 2 ^ 31"
  shows "fst (schedule ev ms s) = Inr ()"
    and "map_of (timers (snd (schedule ev ms s))) (etype ev) = Some (attrs ev, ms, clock s)"
    and "posted_since (snd (schedule ev ms s)) (pygame_time_passes n (snd (schedule ev ms s)))
           (etype ev) = replicate (n div nat ms) ev"
proof -
  let ?s1 = "s\<lparr>timers := AList.update (etype ev) (attrs ev, ms, clock s) (timers s)\<rparr>"
  have s1: "schedule ev ms s = (Inr (), ?s1)"
    using assms by (simp add: schedule_def set_timer_positive)
  have m: "map_of (timers ?s1) (etype ev) = Some (attrs ev, ms, clock ?s1)"
    by (simp add: update_conv')
  show "fst (schedule ev ms s) = Inr ()" by (simp add: s1)
  show "map_of (timers (snd (schedule ev ms s))) (etype ev) = Some (attrs ev, ms, clock s)"
    using m by (simp add: s1)
  show "posted_since (snd (schedule ev ms s)) (pygame_time_passes n (snd (schedule ev ms s)))
           (etype ev) = replicate (n div nat ms) ev"
    using posted_by_timer [OF m assms(1), of n] by (simp add: s1)
qed

lemma unschedule_cancels:
  "fst (unschedule ev s) = Inr ()"
  "map_of (timers (snd (unschedule ev s))) (etype ev) = None"
  "posted_since (snd (unschedule ev s)) (pygame_time_passes n (snd (unschedule ev s)))
     (etype ev) = []"
proof -
  let ?s1 = "s\<lparr>timers := AList.delete (etype ev) (timers s)\<rparr>"
  have s1: "unschedule ev s = (Inr (), ?s1)"
    by (simp add: unschedule_def set_timer_zero)
  have m: "map_of (timers ?s1) (etype ev) = None"
    by (simp add: delete_conv')
  show "fst (unschedule ev s) = Inr ()" by (simp add: s1)
  show "map_of (timers (snd (unschedule ev s))) (etype ev) = None"
    using m by (simp add: s1)
  show "posted_since (snd (unschedule ev s)) (pygame_time_passes n (snd (unschedule ev s)))
     (etype ev) = []"
    using posted_without_timer [OF m, of n] by (simp add: s1)
qed

lemma UserEvent_schedule_eq:
  "UserEvent_schedule u ms s = schedule (uevent u) ms s"
  "UserEvent_unschedule u s = unschedule (uevent u) s"
  by (simp_all add: UserEvent_schedule_def schedule_def UserEvent_unschedule_def unschedule_def)

text \<open>
  C7, as stated, fails at \<open>ms = 2\<^sup>3\<^sup>1\<close>: the value passes the check of \<^verbatim>\<open>schedule\<close> and
  \<^verbatim>\<open>pygame.time.set_timer\<close> raises \<^verbatim>\<open>OverflowError\<close>, so the call does not succeed and no
  timer is installed.
\<close>

theorem schedule_overflow_counterexample:
  "schedule \<lparr>etype = USEREVENT + 1, attrs = []\<rparr> 2147483648 initial_state =
     (Inl OverflowError, initial_state) \<and>
   UserEvent_schedule \<lparr>uevent = \<lparr>etype = USEREVENT + 1, attrs = []\<rparr>\<rparr> 2147483648 initial_state =
     (Inl OverflowError, initial_state)"
  by (simp add: UserEvent_schedule_eq schedule_def pygame_time_set_timer_def raise_def)

text \<open>
  C7, amended. \<^verbatim>\<open>schedule(event, ms)\<close> and \<^verbatim>\<open>UserEvent.schedule(ms)\<close> with \<open>ms \<le> 0\<close> fail
  with the \<open>InvalidArgument\<close> error and leave the process, and so the timer table, as it
  was. With \<open>0 < ms < 2\<^sup>3\<^sup>1\<close> they return and the event's timer is set with interval \<open>ms\<close>:
  in the \<open>n\<close> milliseconds that follow, the events of that type that pygame queues are the
  event itself, once for every full \<open>ms\<close> milliseconds, \<open>n div ms\<close> times in all. After
  \<^verbatim>\<open>unschedule\<close>, in whatever state, the timer is gone and no event of that type is queued
  as time passes.
\<close>

theorem schedule_checks_delay:
  "(ms \<le> 0 \<longrightarrow>
      schedule ev ms s = (Inl InvalidArgument, s) \<and>
      UserEvent_schedule u ms s = (Inl InvalidArgument, s)) \<and>
   (0 < ms \<and> ms < 2 ^ 31 \<longrightarrow>
      fst (schedule ev ms s) = Inr () \<and>
      map_of (timers (snd (schedule ev ms s))) (etype ev) = Some (attrs ev, ms, clock s) \<and>
      posted_since (snd (schedule ev ms s)) (pygame_time_passes n (snd (schedule ev ms s)))
        (etype ev) = replicate (n div nat ms) ev \<and>
      map_of (timers (snd (unschedule ev (snd (schedule ev ms s))))) (etype ev) = None \<and>
      fst (UserEvent_schedule u ms s) = Inr () \<and>
      map_of (timers (snd (UserEvent_schedule u ms s))) (etype (uevent u)) =
        Some (attrs (uevent u), ms, clock s) \<and>
      posted_since (snd (UserEvent_schedule u ms s))
        (pygame_time_passes n (snd (UserEvent_schedule u ms s))) (etype (uevent u)) =
        replicate (n div nat ms) (uevent u) \<and>
      map_of (timers (snd (UserEvent_unschedule u (snd (UserEvent_schedule u ms s)))))
        (etype (uevent u)) = None) \<and>
   fst (unschedule ev s') = Inr () \<and>
   posted_since (snd (unschedule ev s')) (pygame_time_passes n (snd (unschedule ev s')))
     (etype ev) = [] \<and>
   fst (UserEvent_unschedule u s') = Inr () \<and>
   posted_since (snd (UserEvent_unschedule u s'))
     (pygame_time_passes n (snd (UserEvent_unschedule u s'))) (etype (uevent u)) = []"
proof -
  have neg: "ms \<le> 0 \<Longrightarrow> schedule ev ms s = (Inl InvalidArgument, s) \<and>
      UserEvent_schedule u ms s = (Inl InvalidArgument, s)"
    by (simp add: UserEvent_schedule_eq schedule_def raise_def)
  show ?thesis
    using neg by (simp add: UserEvent_schedule_eq schedule_installs unschedule_cancels)
qed

theorem schedule_checks_delay_witness:
  "schedule \<lparr>etype = USEREVENT + 1, attrs = []\<rparr> 0 initial_state = (Inl InvalidArgument, initial_state) \<and>
   schedule \<lparr>etype = USEREVENT + 1, attrs = []\<rparr> (- 5) initial_state = (Inl InvalidArgument, initial_state) \<and>
   fst (schedule \<lparr>etype = USEREVENT + 1, attrs = []\<rparr> 16 initial_state) = Inr () \<and>
   posted_since (snd (schedule \<lparr>etype = USEREVENT + 1, attrs = []\<rparr> 16 initial_state))
     (pygame_time_passes 40 (snd (schedule \<lparr>etype = USEREVENT + 1, attrs = []\<rparr> 16 initial_state)))
     (USEREVENT + 1) =
     [\<lparr>etype = USEREVENT + 1, attrs = []\<rparr>, \<lparr>etype = USEREVENT + 1, attrs = []\<rparr>]"
proof -
  let ?ev = "\<lparr>etype = USEREVENT + 1, attrs = []\<rparr>"
  let ?u = "\<lparr>uevent = ?ev\<rparr>"
  have two: "replicate (40 div nat 16) ?ev = [?ev, ?ev]"
    by (simp add: numeral_2_eq_2)
  have "schedule ?ev 0 initial_state = (Inl InvalidArgument, initial_state)"
    using schedule_checks_delay
      [where ms = 0 and ev = ?ev and s = initial_state and u = ?u and n = 40 and s' = initial_state]
    by simp
  moreover have "schedule ?ev (- 5) initial_state = (Inl InvalidArgument, initial_state)"
    using schedule_checks_delay
      [where ms = "- 5" and ev = ?ev and s = initial_state and u = ?u and n = 40
         and s' = initial_state]
    by simp
  moreover have "fst (schedule ?ev 16 initial_state) = Inr () \<and>
     posted_since (snd (schedule ?ev 16 initial_state))
       (pygame_time_passes 40 (snd (schedule ?ev 16 initial_state))) (etype ?ev) =
       replicate (40 div nat 16) ?ev"
    using schedule_checks_delay
      [where ms = 16 and ev = ?ev and s = initial_state and u = ?u and n = 40
         and s' = initial_state]
    by simp
  ultimately show ?thesis
    by (simp only: two) simp
qed

section \<open>The run context\<close>

text \<open>
  C5. When the loop of \<^verbatim>\<open>run()\<close> ends normally, the context clears the run flag and
  calls \<^verbatim>\<open>close()\<close>, so \<^verbatim>\<open>run()\<close> ends in \<^verbatim>\<open>SystemExit\<close> with pygame shut down. When
  the loop body raises, \<^verbatim>\<open>run()\<close> raises the same exception and the process is left
  exactly as the loop left it: \<^verbatim>\<open>close()\<close> is not called.
\<close>

theorem run_context_asymmetric:
  "(run_loop user w frames (WindowContext_enter w (Window_set_mode w s)) = Some (Inr (), s') \<longrightarrow>
      Window_run user w frames s =
        Some (Window_close w (update_window w (\<lambda>win. win\<lparr>ctx_active := False\<rparr>) s')) \<and>
      Window_run user w frames s =
        Some (Inl SystemExit,
              (update_window w (\<lambda>win. win\<lparr>ctx_active := False\<rparr>) s')\<lparr>pygame_running := False\<rparr>)) \<and>
   (run_loop user w frames (WindowContext_enter w (Window_set_mode w s)) = Some (Inl e, s') \<longrightarrow>
      Window_run user w frames s = Some (Inl e, s'))"
  by (simp add: Window_run_def Window_close_eq raise_def update_window_def)

lemma entered_game_state:
  "windows (WindowContext_enter 0 (Window_set_mode 0 game_state)) 0 =
     (windows game_state 0)\<lparr>screen := Some (VTuple [VInt 0, VInt 0, VInt 0]), ctx_active := True\<rparr>"
  "queue (WindowContext_enter 0 (Window_set_mode 0 game_state)) = []"
  "pygame_running (WindowContext_enter 0 (Window_set_mode 0 game_state))"
  by (simp_all add: WindowContext_enter_def Window_set_mode_def update_window_def game_state_fields)

lemma handle_events_no_events: "queue s = [] \<Longrightarrow> handle_events user w s = (Inr (), s)"
  by (simp add: handle_events_def returns_def)

lemma run_stopping:
  "\<exists>s'. run_loop stopping_hooks 0 [[]] (WindowContext_enter 0 (Window_set_mode 0 game_state)) =
     Some (Inr (), s') \<and> pygame_running s'"
  by (simp add: entered_game_state loop_body_def then_do_def handle_events_no_events
        Window_clear_def returns_def windows_game_state new_window_hooks new_window_def
        stopping_hooks_def modify_def update_window_def raise_def)

lemma run_failing:
  "\<exists>s'. run_loop failing_hooks 0 [[]] (WindowContext_enter 0 (Window_set_mode 0 game_state)) =
     Some (Inl (Raised ''boom''), s') \<and> pygame_running s'"
  by (simp add: entered_game_state loop_body_def then_do_def handle_events_no_events
        Window_clear_def returns_def windows_game_state new_window_hooks new_window_def
        failing_hooks_def modify_def update_window_def raise_def)

theorem run_context_asymmetric_witness:
  "(\<exists>s'. Window_run stopping_hooks 0 [[]] game_state = Some (Inl SystemExit, s') \<and>
         \<not> pygame_running s' \<and> \<not> ctx_active (windows s' 0)) \<and>
   (\<exists>s'. Window_run failing_hooks 0 [[]] game_state = Some (Inl (Raised ''boom''), s') \<and>
         pygame_running s')"
proof -
  from run_stopping obtain s1 where
    s1: "run_loop stopping_hooks 0 [[]] (WindowContext_enter 0 (Window_set_mode 0 game_state)) =
           Some (Inr (), s1)" by blast
  from run_failing obtain s2 where
    s2: "run_loop failing_hooks 0 [[]] (WindowContext_enter 0 (Window_set_mode 0 game_state)) =
           Some (Inl (Raised ''boom''), s2)" and up: "pygame_running s2" by blast
  from s1 run_context_asymmetric [of stopping_hooks 0 "[[]]" game_state s1]
  have "Window_run stopping_hooks 0 [[]] game_state =
        Some (Inl SystemExit,
              (update_window 0 (\<lambda>win. win\<lparr>ctx_active := False\<rparr>) s1)\<lparr>pygame_running := False\<rparr>)"
    by blast
  moreover from s2 run_context_asymmetric
    [where user = failing_hooks and w = 0 and frames = "[[]]" and s = game_state and s' = s2
       and e = "Raised ''boom''"]
  have "Window_run failing_hooks 0 [[]] game_state = Some (Inl (Raised ''boom''), s2)"
    by blast
  ultimately show ?thesis using up by (simp add: update_window_def)
qed

end
